theory Spec2Isabelle
  imports Complex_Main
begin

section \<open>Rule-based fiber orientation (ldrb/ldrb.py): data model\<close>

text \<open>
  Python floats and numpy float64 values are modelled by the reals, so that the
  approximate equalities of the specification read as equalities of exact arithmetic.
  A NaN is a value of its own: numpy divides a zero vector by its zero norm without
  raising, and the NaN entries travel on through the arithmetic into the output. An
  array is therefore either \<open>Finite\<close>, with real entries, or \<open>NaNs\<close>, the array of
  the same shape all of whose entries are NaN. An exception is an error value, and only
  an exception ends a computation early.
\<close>

datatype error = ZeroDivisionError | IndexError | LibraryError

datatype 'a nn = Finite 'a | NaNs

definition nn_bind :: "'a nn \<Rightarrow> ('a \<Rightarrow> 'b nn) \<Rightarrow> 'b nn" where
  "nn_bind m f = (case m of NaNs \<Rightarrow> NaNs | Finite a \<Rightarrow> f a)"

definition nn_map :: "('a \<Rightarrow> 'b) \<Rightarrow> 'a nn \<Rightarrow> 'b nn" where
  "nn_map f m = (case m of NaNs \<Rightarrow> NaNs | Finite a \<Rightarrow> Finite (f a))"

definition and_then :: "error + 'a \<Rightarrow> ('a \<Rightarrow> error + 'b) \<Rightarrow> error + 'b" where
  "and_then m f = (case m of Inl e \<Rightarrow> Inl e | Inr a \<Rightarrow> f a)"

type_synonym vec3 = "real \<times> real \<times> real"

text \<open>A 3x3 array is the triple of its rows.\<close>

type_synonym mat3 = "vec3 \<times> vec3 \<times> vec3"

fun vsub :: "vec3 \<Rightarrow> vec3 \<Rightarrow> vec3" where
  "vsub (a1, a2, a3) (b1, b2, b3) = (a1 - b1, a2 - b2, a3 - b3)"

fun smul :: "real \<Rightarrow> vec3 \<Rightarrow> vec3" where
  "smul c (a1, a2, a3) = (c * a1, c * a2, c * a3)"

fun vdot :: "vec3 \<Rightarrow> vec3 \<Rightarrow> real" where
  "vdot (a1, a2, a3) (b1, b2, b3) = a1 * b1 + a2 * b2 + a3 * b3"

fun cross :: "vec3 \<Rightarrow> vec3 \<Rightarrow> vec3" where
  "cross (a1, a2, a3) (b1, b2, b3) =
     (a2 * b3 - a3 * b2, a3 * b1 - a1 * b3, a1 * b2 - a2 * b1)"

definition vnorm :: "vec3 \<Rightarrow> real" where
  "vnorm u = sqrt (vdot u u)"

fun transpose3 :: "mat3 \<Rightarrow> mat3" where
  "transpose3 ((a11, a12, a13), (a21, a22, a23), (a31, a32, a33)) =
     ((a11, a21, a31), (a12, a22, a32), (a13, a23, a33))"

fun mat_vec :: "mat3 \<Rightarrow> vec3 \<Rightarrow> vec3" where
  "mat_vec (r1, r2, r3) c = (vdot r1 c, vdot r2 c, vdot r3 c)"

text \<open>\<open>np.dot(M, N)\<close> for two 3x3 arrays.\<close>

definition mat_mul :: "mat3 \<Rightarrow> mat3 \<Rightarrow> mat3" where
  "mat_mul M N =
     (case transpose3 N of (c1, c2, c3) \<Rightarrow>
        transpose3 (mat_vec M c1, mat_vec M c2, mat_vec M c3))"

definition identity3 :: mat3 where
  "identity3 = ((1, 0, 0), (0, 1, 0), (0, 0, 1))"

text \<open>The columns of a matrix: \<open>Q.T[0]\<close>, \<open>Q.T[1]\<close>, \<open>Q.T[2]\<close>.\<close>

definition col0 :: "mat3 \<Rightarrow> vec3" where
  "col0 Q = fst (transpose3 Q)"

definition col1 :: "mat3 \<Rightarrow> vec3" where
  "col1 Q = fst (snd (transpose3 Q))"

definition col2 :: "mat3 \<Rightarrow> vec3" where
  "col2 Q = snd (snd (transpose3 Q))"

definition orthonormal :: "mat3 \<Rightarrow> bool" where
  "orthonormal Q \<longleftrightarrow> mat_mul (transpose3 Q) Q = identity3"

text \<open>
  The matrix \<open>np.array([e0, e1, e2]).T\<close> that \<open>axis\<close> builds from three vectors, each
  of them finite or NaN: it is kept as the triple of its columns.
\<close>

type_synonym columns = "vec3 nn \<times> vec3 nn \<times> vec3 nn"

definition finite_frame :: "mat3 \<Rightarrow> columns" where
  "finite_frame Q = (Finite (col0 Q), Finite (col1 Q), Finite (col2 Q))"

text \<open>The three entries of a vector, as they are written into a flat array.\<close>

fun entries :: "vec3 nn \<Rightarrow> real nn \<times> real nn \<times> real nn" where
  "entries (Finite (a, b, c)) = (Finite a, Finite b, Finite c)"
| "entries NaNs = (NaNs, NaNs, NaNs)"

subsection \<open>Quaternions (the numpy-quaternion package)\<close>

text \<open>\<open>quaternion.quaternion(w, x, y, z)\<close> with its attributes \<open>w\<close>, \<open>x\<close>, \<open>y\<close>, \<open>z\<close>.\<close>

datatype quat = Quat (qw: real) (qx: real) (qy: real) (qz: real)

definition qneg :: "quat \<Rightarrow> quat" where
  "qneg q = Quat (- qw q) (- qx q) (- qy q) (- qz q)"

text \<open>The Hamilton product, \<open>q * p\<close>.\<close>

definition qmul :: "quat \<Rightarrow> quat \<Rightarrow> quat" where
  "qmul q p = Quat
     (qw q * qw p - qx q * qx p - qy q * qy p - qz q * qz p)
     (qw q * qx p + qx q * qw p + qy q * qz p - qz q * qy p)
     (qw q * qy p - qx q * qz p + qy q * qw p + qz q * qx p)
     (qw q * qz p + qx q * qy p - qy q * qx p + qz q * qw p)"

text \<open>\<open>q.norm()\<close> is the sum of the squared components, \<open>q.abs()\<close> its square root.\<close>

definition qnorm :: "quat \<Rightarrow> real" where
  "qnorm q = qw q * qw q + qx q * qx q + qy q * qy q + qz q * qz q"

text \<open>\<open>q.normalized()\<close>: \<open>q / q.abs()\<close>; the zero quaternion gives NaN components.\<close>

definition normalized :: "quat \<Rightarrow> quat nn" where
  "normalized q =
     (if qnorm q = 0 then NaNs
      else Finite (Quat (qw q / sqrt (qnorm q)) (qx q / sqrt (qnorm q))
                     (qy q / sqrt (qnorm q)) (qz q / sqrt (qnorm q))))"

text \<open>
  \<open>quaternion.as_rotation_matrix(q)\<close> for a single quaternion: it raises on a zero norm
  and divides by the norm otherwise (a division by one for a normalized input).
\<close>

definition as_rotation_matrix :: "quat \<Rightarrow> error + mat3" where
  "as_rotation_matrix q =
     (let n = qnorm q; w = qw q; x = qx q; y = qy q; z = qz q in
      if n = 0 then Inl ZeroDivisionError
      else Inr
        ((1 - 2 * (y * y + z * z) / n, 2 * (x * y - z * w) / n, 2 * (x * z + y * w) / n),
         (2 * (x * y + z * w) / n, 1 - 2 * (x * x + z * z) / n, 2 * (y * z - x * w) / n),
         (2 * (x * z - y * w) / n, 2 * (y * z + x * w) / n, 1 - 2 * (x * x + y * y) / n)))"

subsection \<open>External numerical routines\<close>

text \<open>
  The iterative routines of scipy and numpy-quaternion are parameters of the model:
  \<open>optimize_root f x0\<close> is \<open>scipy.optimize.root(f, x0).x\<close> (or the exception it
  raises), for a residual and an initial guess that may be NaN;
  \<open>from_rotation_matrix Q\<close> is \<open>quaternion.from_rotation_matrix(Q)\<close> and
  \<open>slerp q1 q2 t1 t2 t\<close> is \<open>quaternion.slerp(q1, q2, t1, t2, t)\<close>, on finite
  arguments. What these conversions and the interpolation make of a matrix with NaN
  entries is theirs to say (a NaN result or an exception):
  \<open>bislerp_on_nan Qa Qb t\<close> is the outcome of the quaternion route of \<open>bislerp\<close> when
  one of its two matrices is NaN.
\<close>

record numerics =
  optimize_root :: "(vec3 \<Rightarrow> vec3 nn) \<Rightarrow> vec3 nn \<Rightarrow> error + vec3 nn"
  from_rotation_matrix :: "mat3 \<Rightarrow> quat"
  slerp :: "quat \<Rightarrow> quat \<Rightarrow> real \<Rightarrow> real \<Rightarrow> real \<Rightarrow> quat"
  bislerp_on_nan :: "mat3 nn \<Rightarrow> mat3 nn \<Rightarrow> real \<Rightarrow> error + mat3 nn"

section \<open>The functions of ldrb.py\<close>

subsection \<open>normalize, axis, orient\<close>

text \<open>
  \<open>u / np.linalg.norm(u)\<close>: the zero vector is divided by zero, which gives NaN in every
  component and raises nothing.
\<close>

definition normalize :: "vec3 \<Rightarrow> vec3 nn" where
  "normalize u =
     (if vnorm u = 0 then NaNs
      else Finite (case u of (u1, u2, u3) \<Rightarrow> (u1 / vnorm u, u2 / vnorm u, u3 / vnorm u)))"

text \<open>The residual \<open>f\<close> that \<open>axis\<close> hands to the root finder, for a finite \<open>e1\<close>.\<close>

definition axis_f :: "vec3 \<Rightarrow> vec3 \<Rightarrow> vec3 \<Rightarrow> vec3 nn" where
  "axis_f e1 v e0 =
     nn_bind (normalize (vsub v (smul (vdot e0 v) e0))) (\<lambda>e2.
     Finite (vsub e0 (cross e1 e2)))"

text \<open>
  Every arithmetic step on a NaN vector gives a NaN vector again, so each of the three
  vectors is finite or NaN as a whole.
\<close>

definition axis :: "numerics \<Rightarrow> vec3 \<Rightarrow> vec3 \<Rightarrow> error + columns" where
  "axis L u v =
     (let e1 = normalize u;
          e2 = normalize v;
          e2 = nn_bind e1 (\<lambda>a. nn_bind e2 (\<lambda>b. normalize (vsub b (smul (vdot a b) a))));
          e0 = nn_bind e1 (\<lambda>a. nn_bind e2 (\<lambda>b. normalize (cross a b)));
          f = (\<lambda>e0. nn_bind e1 (\<lambda>a. axis_f a v e0))
      in and_then (optimize_root L f e0) (\<lambda>e0.
         let e2 = nn_bind e0 (\<lambda>c. normalize (vsub v (smul (vdot c v) c)))
         in Inr (e0, e1, e2)))"

definition radians :: "real \<Rightarrow> real" where
  "radians a = a * pi / 180"

text \<open>
  \<open>np.dot(Q.real, A).dot(B)\<close>. Every row of a matrix with a NaN column has a NaN entry,
  and a NaN times any number (zero too) is NaN: with a NaN column every entry of the
  product is NaN.
\<close>

definition orient :: "columns \<Rightarrow> real \<Rightarrow> real \<Rightarrow> mat3 nn" where
  "orient Q alpha beta =
     (let A = ((cos (radians alpha), - sin (radians alpha), 0),
               (sin (radians alpha), cos (radians alpha), 0),
               (0, 0, 1));
          B = ((1, 0, 0),
               (0, cos (radians beta), sin (radians beta)),
               (0, - sin (radians beta), cos (radians beta)))
      in case Q of (e0, e1, e2) \<Rightarrow>
           nn_bind e0 (\<lambda>c0. nn_bind e1 (\<lambda>c1. nn_bind e2 (\<lambda>c2.
             Finite (mat_mul (mat_mul (transpose3 (c0, c1, c2)) A) B)))))"

subsection \<open>bislerp\<close>

definition quat_i :: quat where
  "quat_i = Quat 0 1 0 0"

definition quat_j :: quat where
  "quat_j = Quat 0 0 1 0"

definition quat_k :: quat where
  "quat_k = Quat 0 0 0 1"

definition quat_array :: "quat \<Rightarrow> quat list" where
  "quat_array qa =
     [qa, qneg qa,
      qmul qa quat_i, qmul (qneg qa) quat_i,
      qmul qa quat_j, qmul (qneg qa) quat_j,
      qmul qa quat_k, qmul (qneg qa) quat_k]"

definition dot :: "quat \<Rightarrow> quat \<Rightarrow> real" where
  "dot qi qj = qx qi * qx qj + qy qi * qy qj + qz qi * qz qj + qw qi * qw qj"

text \<open>\<open>np.argmax\<close>: the first index of a maximal entry (of a non-empty list).\<close>

fun argmax :: "real list \<Rightarrow> nat" where
  "argmax [] = 0"
| "argmax [a] = 0"
| "argmax (a # b # bs) = (let i = argmax (b # bs) in if (b # bs) ! i > a then Suc i else 0)"

definition dot_arr :: "numerics \<Rightarrow> mat3 \<Rightarrow> mat3 \<Rightarrow> real list" where
  "dot_arr L Qa Qb =
     map (\<lambda>qi. \<bar>dot qi (from_rotation_matrix L Qb)\<bar>) (quat_array (from_rotation_matrix L Qa))"

definition max_idx :: "numerics \<Rightarrow> mat3 \<Rightarrow> mat3 \<Rightarrow> nat" where
  "max_idx L Qa Qb = argmax (dot_arr L Qa Qb)"

definition max_dot :: "numerics \<Rightarrow> mat3 \<Rightarrow> mat3 \<Rightarrow> real" where
  "max_dot L Qa Qb = dot_arr L Qa Qb ! max_idx L Qa Qb"

definition qm :: "numerics \<Rightarrow> mat3 \<Rightarrow> mat3 \<Rightarrow> quat" where
  "qm L Qa Qb = quat_array (from_rotation_matrix L Qa) ! max_idx L Qa Qb"

definition bislerp_tol :: real where
  "bislerp_tol = 1 / 10 ^ 12"

text \<open>
  The absent cases come first and hand a frame back as it is, NaN or not. A normalized
  quaternion of NaNs has a NaN norm, which is neither zero nor close to one, and
  \<open>as_rotation_matrix\<close> divides by it: the matrix is NaN.
\<close>

fun bislerp ::
  "numerics \<Rightarrow> mat3 nn option \<Rightarrow> mat3 nn option \<Rightarrow> real \<Rightarrow> error + mat3 nn option" where
  "bislerp L None None t = Inr None"
| "bislerp L None (Some Qb) t = Inr (Some Qb)"
| "bislerp L (Some Qa) None t = Inr (Some Qa)"
| "bislerp L (Some (Finite Qa)) (Some (Finite Qb)) t =
     (if max_dot L Qa Qb > 1 - bislerp_tol then Inr (Some (Finite Qb))
      else
        case normalized (slerp L (qm L Qa Qb) (from_rotation_matrix L Qb) 0 1 t) of
          NaNs \<Rightarrow> Inr (Some NaNs)
        | Finite qm_norm \<Rightarrow>
            and_then (as_rotation_matrix qm_norm) (\<lambda>Qab.
            Inr (Some (Finite Qab))))"
| "bislerp L (Some Qa) (Some Qb) t =
     and_then (bislerp_on_nan L Qa Qb t) (\<lambda>Qab. Inr (Some Qab))"

subsection \<open>standard_dofs\<close>

text \<open>
  \<open>np.arange(start, stop, step)\<close> on non-negative integers: the values
  \<open>start + i * step\<close> below \<open>stop\<close>; a zero step raises.
\<close>

definition arange :: "nat \<Rightarrow> nat \<Rightarrow> nat \<Rightarrow> error + nat list" where
  "arange start stop step =
     (if step = 0 then Inl ZeroDivisionError
      else Inr (map (\<lambda>i. start + i * step) [0 ..< (stop - start + step - 1) div step]))"

fun zip4 :: "'a list \<Rightarrow> 'b list \<Rightarrow> 'c list \<Rightarrow> 'd list \<Rightarrow> ('a \<times> 'b \<times> 'c \<times> 'd) list" where
  "zip4 (a # as) (b # bs) (c # cs) (d # ds) = (a, b, c, d) # zip4 as bs cs ds"
| "zip4 _ _ _ _ = []"

definition standard_dofs :: "nat \<Rightarrow> error + (nat \<times> nat \<times> nat \<times> nat) list" where
  "standard_dofs n =
     and_then (arange 0 (3 * n) n) (\<lambda>x_dofs.
     and_then (arange 1 (3 * n) n) (\<lambda>y_dofs.
     and_then (arange 2 (3 * n) n) (\<lambda>z_dofs.
     and_then (arange 0 n 1) (\<lambda>scalar_dofs.
     Inr (zip4 x_dofs y_dofs z_dofs scalar_dofs)))))"

subsection \<open>system_at_dof\<close>

text \<open>
  The depth of a point between the two ventricles. Dividing by a zero sum has no
  numerical value (a NaN or an infinity for numpy scalars, an exception for Python
  floats): the model returns an error there.
\<close>

definition depth_of :: "real \<Rightarrow> real \<Rightarrow> real \<Rightarrow> error + real" where
  "depth_of lv rv tol =
     (if lv + rv < tol then Inr (1 / 2)
      else if lv + rv = 0 then Inl ZeroDivisionError
      else Inr (rv / (lv + rv)))"

definition default_tol :: real where
  "default_tol = 1 / 10 ^ 7"

text \<open>Lines 230 to 248: the frames of a point, once its depth is known.\<close>

definition frames_at_depth ::
  "numerics \<Rightarrow> real \<Rightarrow> real \<Rightarrow> real \<Rightarrow> real \<Rightarrow> vec3 \<Rightarrow> vec3 \<Rightarrow> vec3 \<Rightarrow> vec3 \<Rightarrow>
   real \<Rightarrow> real \<Rightarrow> real \<Rightarrow> real \<Rightarrow> real \<Rightarrow> error + mat3 nn option" where
  "frames_at_depth L depth lv rv epi grad_lv grad_rv grad_epi grad_ab
                   alpha_endo alpha_epi beta_endo beta_epi tol =
     (let alpha_s = (\<lambda>d. alpha_endo * (1 - d) - alpha_endo * d);
          alpha_w = (\<lambda>d. alpha_endo * (1 - d) + alpha_epi * d);
          beta_s = (\<lambda>d. beta_endo * (1 - d) - beta_endo * d);
          beta_w = (\<lambda>d. beta_endo * (1 - d) + beta_epi * d)
      in
      and_then (if lv > tol
                then and_then (axis L grad_ab (smul (- 1) grad_lv)) (\<lambda>Q_lv.
                       Inr (Some (orient Q_lv (alpha_s depth) (beta_s depth))))
                else Inr None) (\<lambda>Q_lv.
      and_then (if rv > tol
                then and_then (axis L grad_ab grad_rv) (\<lambda>Q_rv.
                       Inr (Some (orient Q_rv (alpha_s depth) (beta_s depth))))
                else Inr None) (\<lambda>Q_rv.
      and_then (bislerp L Q_lv Q_rv depth) (\<lambda>Q_endo.
      and_then (if epi > tol
                then and_then (axis L grad_ab grad_epi) (\<lambda>Q_epi.
                       Inr (Some (orient Q_epi (alpha_w epi) (beta_w epi))))
                else Inr None) (\<lambda>Q_epi.
      bislerp L Q_endo Q_epi epi)))))"

definition system_at_dof ::
  "numerics \<Rightarrow> real \<Rightarrow> real \<Rightarrow> real \<Rightarrow> vec3 \<Rightarrow> vec3 \<Rightarrow> vec3 \<Rightarrow> vec3 \<Rightarrow>
   real \<Rightarrow> real \<Rightarrow> real \<Rightarrow> real \<Rightarrow> real \<Rightarrow> error + mat3 nn option" where
  "system_at_dof L lv rv epi grad_lv grad_rv grad_epi grad_ab
                 alpha_endo alpha_epi beta_endo beta_epi tol =
     and_then (depth_of lv rv tol) (\<lambda>depth.
     frames_at_depth L depth lv rv epi grad_lv grad_rv grad_epi grad_ab
                     alpha_endo alpha_epi beta_endo beta_epi tol)"

subsection \<open>compute_fiber_sheet_system\<close>

text \<open>
  The keyword arguments: the fields, the optional dof enumeration and right-ventricle
  fields, and the twelve angles, of which only the four of the left ventricle have
  numeric defaults.
\<close>

record arguments =
  lv_scalar :: "real list"
  lv_gradient :: "real list"
  epi_scalar :: "real list"
  epi_gradient :: "real list"
  apex_gradient :: "real list"
  dofs :: "(nat \<times> nat \<times> nat \<times> nat) list option"
  rv_scalar :: "real list option"
  rv_gradient :: "real list option"
  alpha_endo_lv :: real
  alpha_epi_lv :: real
  alpha_endo_rv :: "real option"
  alpha_epi_rv :: "real option"
  alpha_endo_sept :: "real option"
  alpha_epi_sept :: "real option"
  beta_endo_lv :: real
  beta_epi_lv :: real
  beta_endo_rv :: "real option"
  beta_epi_rv :: "real option"
  beta_endo_sept :: "real option"
  beta_epi_sept :: "real option"

text \<open>The call with every optional argument omitted.\<close>

definition default_arguments ::
  "real list \<Rightarrow> real list \<Rightarrow> real list \<Rightarrow> real list \<Rightarrow> real list \<Rightarrow> arguments" where
  "default_arguments lvs lvg epis epig apexg =
     \<lparr>lv_scalar = lvs, lv_gradient = lvg, epi_scalar = epis, epi_gradient = epig,
      apex_gradient = apexg, dofs = None, rv_scalar = None, rv_gradient = None,
      alpha_endo_lv = 40, alpha_epi_lv = - 50,
      alpha_endo_rv = None, alpha_epi_rv = None,
      alpha_endo_sept = None, alpha_epi_sept = None,
      beta_endo_lv = - 65, beta_epi_lv = 25,
      beta_endo_rv = None, beta_epi_rv = None,
      beta_endo_sept = None, beta_epi_sept = None\<rparr>"

text \<open>
  Python's \<open>a or b\<close> on an optional float: \<open>b\<close> when \<open>a\<close> is \<open>None\<close> or zero,
  \<open>a\<close> otherwise.
\<close>

definition py_or :: "real option \<Rightarrow> real \<Rightarrow> real" where
  "py_or a b = (case a of None \<Rightarrow> b | Some r \<Rightarrow> if r = 0 then b else r)"

text \<open>The angles after the eight \<open>or\<close> assignments.\<close>

record angles =
  a_endo_lv :: real
  a_epi_lv :: real
  a_endo_rv :: real
  a_epi_rv :: real
  a_endo_sept :: real
  a_epi_sept :: real
  b_endo_lv :: real
  b_epi_lv :: real
  b_endo_rv :: real
  b_epi_rv :: real
  b_endo_sept :: real
  b_epi_sept :: real

definition resolve_angles :: "arguments \<Rightarrow> angles" where
  "resolve_angles P =
     \<lparr>a_endo_lv = alpha_endo_lv P,
      a_epi_lv = alpha_epi_lv P,
      a_endo_rv = py_or (alpha_endo_rv P) (alpha_endo_lv P),
      a_epi_rv = py_or (alpha_epi_rv P) (alpha_epi_lv P),
      a_endo_sept = py_or (alpha_endo_sept P) (alpha_endo_lv P),
      a_epi_sept = py_or (alpha_epi_sept P) (alpha_epi_lv P),
      b_endo_lv = beta_endo_lv P,
      b_epi_lv = beta_epi_lv P,
      b_endo_rv = py_or (beta_endo_rv P) (beta_endo_lv P),
      b_epi_rv = py_or (beta_epi_rv P) (beta_epi_lv P),
      b_endo_sept = py_or (beta_endo_sept P) (beta_epi_lv P),
      b_epi_sept = py_or (beta_epi_sept P) (beta_epi_lv P)\<rparr>"

text \<open>Reading one entry and three entries of a flat array; out of range raises.\<close>

definition get1 :: "real list \<Rightarrow> nat \<Rightarrow> error + real" where
  "get1 xs i = (if i < length xs then Inr (xs ! i) else Inl IndexError)"

definition get3 :: "real list \<Rightarrow> nat \<times> nat \<times> nat \<Rightarrow> error + vec3" where
  "get3 xs dof =
     (case dof of (i, j, k) \<Rightarrow>
        if i < length xs \<and> j < length xs \<and> k < length xs
        then Inr (xs ! i, xs ! j, xs ! k) else Inl IndexError)"

text \<open>\<open>a[dof] = c\<close>: the three entries, numbers or NaNs, are written in order.\<close>

definition set3 ::
  "real nn list \<Rightarrow> nat \<times> nat \<times> nat \<Rightarrow> real nn \<times> real nn \<times> real nn \<Rightarrow> error + real nn list" where
  "set3 xs dof c =
     (case (dof, c) of ((i, j, k), (c1, c2, c3)) \<Rightarrow>
        if i < length xs \<and> j < length xs \<and> k < length xs
        then Inr (xs[i := c1, j := c2, k := c3]) else Inl IndexError)"

record FiberSheetSystem =
  fiber :: "real nn list"
  sheet :: "real nn list"
  sheet_normal :: "real nn list"

definition class_tol :: real where
  "class_tol = 1 / 10 ^ 3"

text \<open>The four angles (endo alpha, endo beta, epi alpha, epi beta) of a point's region.\<close>

definition select_angles :: "angles \<Rightarrow> real \<Rightarrow> real \<Rightarrow> real \<times> real \<times> real \<times> real" where
  "select_angles A lv rv =
     (let tol = class_tol in
      if lv > tol \<and> rv < tol then (a_endo_lv A, b_endo_lv A, a_epi_lv A, b_epi_lv A)
      else if lv < tol \<and> rv > tol then (a_endo_rv A, b_endo_rv A, a_epi_rv A, b_epi_rv A)
      else if lv > tol \<and> rv > tol then (a_endo_sept A, b_endo_sept A, a_epi_sept A, b_epi_sept A)
      else (a_endo_lv A, b_endo_lv A, a_epi_lv A, b_epi_lv A))"

text \<open>
  The frame of one tuple of the enumeration: the reads of the fields, the choice of the
  angles and the call of \<open>system_at_dof\<close>, with the tolerance that the loop passes on.
\<close>

definition frame_at ::
  "numerics \<Rightarrow> arguments \<Rightarrow> real list \<Rightarrow> real list \<Rightarrow> angles \<Rightarrow>
   nat \<times> nat \<times> nat \<times> nat \<Rightarrow> error + mat3 nn option" where
  "frame_at L P rvs rvg A d =
     (case d of (x_dof, y_dof, z_dof, s_dof) \<Rightarrow>
        let dof = (x_dof, y_dof, z_dof) in
        and_then (get1 (lv_scalar P) s_dof) (\<lambda>lv.
        and_then (get1 rvs s_dof) (\<lambda>rv.
        and_then (get1 (epi_scalar P) s_dof) (\<lambda>epi.
        and_then (get3 (lv_gradient P) dof) (\<lambda>grad_lv.
        and_then (get3 rvg dof) (\<lambda>grad_rv.
        and_then (get3 (epi_gradient P) dof) (\<lambda>grad_epi.
        and_then (get3 (apex_gradient P) dof) (\<lambda>grad_ab.
        case select_angles A lv rv of (alpha_endo, beta_endo, alpha_epi, beta_epi) \<Rightarrow>
          system_at_dof L lv rv epi grad_lv grad_rv grad_epi grad_ab
                        alpha_endo alpha_epi beta_endo beta_epi class_tol))))))))"

text \<open>
  The body of the loop, and the loop over the enumeration. An absent frame is skipped; a
  frame of NaNs is written like any other, and the loop goes on. Only an exception ends
  the loop.
\<close>

definition loop_body ::
  "numerics \<Rightarrow> arguments \<Rightarrow> real list \<Rightarrow> real list \<Rightarrow> angles \<Rightarrow>
   FiberSheetSystem \<Rightarrow> nat \<times> nat \<times> nat \<times> nat \<Rightarrow> error + FiberSheetSystem" where
  "loop_body L P rvs rvg A S d =
     (case d of (x_dof, y_dof, z_dof, s_dof) \<Rightarrow>
        let dof = (x_dof, y_dof, z_dof) in
        and_then (frame_at L P rvs rvg A d) (\<lambda>Q_fiber.
        case Q_fiber of
          None \<Rightarrow> Inr S
        | Some Q \<Rightarrow>
            and_then (set3 (fiber S) dof (entries (nn_map col0 Q))) (\<lambda>f0.
            and_then (set3 (sheet S) dof (entries (nn_map col1 Q))) (\<lambda>s0.
            and_then (set3 (sheet_normal S) dof (entries (nn_map col2 Q))) (\<lambda>n0.
            Inr \<lparr>fiber = f0, sheet = s0, sheet_normal = n0\<rparr>)))))"

fun loop ::
  "numerics \<Rightarrow> arguments \<Rightarrow> real list \<Rightarrow> real list \<Rightarrow> angles \<Rightarrow>
   FiberSheetSystem \<Rightarrow> (nat \<times> nat \<times> nat \<times> nat) list \<Rightarrow> error + FiberSheetSystem" where
  "loop L P rvs rvg A S [] = Inr S"
| "loop L P rvs rvg A S (d # ds) =
     and_then (loop_body L P rvs rvg A S d) (\<lambda>S'. loop L P rvs rvg A S' ds)"

definition zeros_like :: "real list \<Rightarrow> real list" where
  "zeros_like xs = replicate (length xs) 0"

text \<open>The output arrays start as \<open>np.zeros_like(lv_gradient)\<close>.\<close>

definition zero_field :: "real list \<Rightarrow> real nn list" where
  "zero_field xs = replicate (length xs) (Finite 0)"

text \<open>The defaults of the three optional fields.\<close>

definition dofs_or_standard :: "arguments \<Rightarrow> error + (nat \<times> nat \<times> nat \<times> nat) list" where
  "dofs_or_standard P =
     (case dofs P of None \<Rightarrow> standard_dofs (length (lv_scalar P)) | Some ds \<Rightarrow> Inr ds)"

definition rv_scalar_or_zeros :: "arguments \<Rightarrow> real list" where
  "rv_scalar_or_zeros P =
     (case rv_scalar P of None \<Rightarrow> zeros_like (lv_scalar P) | Some r \<Rightarrow> r)"

definition rv_gradient_or_zeros :: "arguments \<Rightarrow> real list" where
  "rv_gradient_or_zeros P =
     (case rv_gradient P of None \<Rightarrow> zeros_like (lv_gradient P) | Some g \<Rightarrow> g)"

definition compute_fiber_sheet_system :: "numerics \<Rightarrow> arguments \<Rightarrow> error + FiberSheetSystem" where
  "compute_fiber_sheet_system L P =
     and_then (dofs_or_standard P) (\<lambda>ds.
     let rvs = rv_scalar_or_zeros P;
         rvg = rv_gradient_or_zeros P;
         A = resolve_angles P;
         S0 = \<lparr>fiber = zero_field (lv_gradient P),
               sheet = zero_field (lv_gradient P),
               sheet_normal = zero_field (lv_gradient P)\<rparr>
     in loop L P rvs rvg A S0 ds)"

section \<open>Concrete inputs\<close>

text \<open>
  For evaluating the model on concrete inputs the external routines are instantiated in
  exact arithmetic. The conversion of a rotation matrix follows the branch of
  numpy-quaternion for orthogonal input (the largest of the three diagonal entries and the
  trace selects the formula, the result is scaled to unit length); the interpolation is
  the spherical one along the shorter arc. The root finder of this instance does no
  iteration and returns its initial guess: the evaluations below that use the instance
  reach the root finder only where the initial guess is a root of the residual already,
  and the evaluation of \<open>axis\<close> on other vectors supplies a root explicitly. On a matrix
  of NaNs the instance gives a matrix of NaNs.
\<close>

definition exact_from_rotation_matrix :: "mat3 \<Rightarrow> quat" where
  "exact_from_rotation_matrix R =
     (case R of ((r00, r01, r02), (r10, r11, r12), (r20, r21, r22)) \<Rightarrow>
        let i = argmax [r00, r11, r22, r00 + r11 + r22];
            q = (if i = 0 then Quat (r21 - r12) (1 + r00 - r11 - r22) (r01 + r10) (r02 + r20)
                 else if i = 1 then Quat (r02 - r20) (r10 + r01) (1 - r00 + r11 - r22) (r12 + r21)
                 else if i = 2 then Quat (r10 - r01) (r20 + r02) (r21 + r12) (1 - r00 - r11 + r22)
                 else Quat (1 + r00 + r11 + r22) (r21 - r12) (r02 - r20) (r10 - r01))
        in Quat (qw q / sqrt (qnorm q)) (qx q / sqrt (qnorm q))
                (qy q / sqrt (qnorm q)) (qz q / sqrt (qnorm q)))"

definition exact_slerp :: "quat \<Rightarrow> quat \<Rightarrow> real \<Rightarrow> real \<Rightarrow> real \<Rightarrow> quat" where
  "exact_slerp q1 q2 t1 t2 t =
     (let tau = (t - t1) / (t2 - t1);
          q2' = (if dot q1 q2 < 0 then qneg q2 else q2);
          omega = arccos (dot q1 q2');
          a = sin ((1 - tau) * omega) / sin omega;
          b = sin (tau * omega) / sin omega
      in if sin omega = 0 then q1
         else Quat (a * qw q1 + b * qw q2') (a * qx q1 + b * qx q2')
                   (a * qy q1 + b * qy q2') (a * qz q1 + b * qz q2'))"

definition exact_numerics :: numerics where
  "exact_numerics =
     \<lparr>optimize_root = (\<lambda>f x0. Inr x0),
      from_rotation_matrix = exact_from_rotation_matrix,
      slerp = exact_slerp,
      bislerp_on_nan = (\<lambda>Qa Qb t. Inr NaNs)\<rparr>"

text \<open>The instance whose root finder returns the given point.\<close>

definition numerics_with_root :: "vec3 \<Rightarrow> numerics" where
  "numerics_with_root r = exact_numerics\<lparr>optimize_root := (\<lambda>f x0. Inr (Finite r))\<rparr>"

text \<open>
  Rotation matrices, and the cosine of the angle of the rotation that takes one frame to
  another: two rotations are at least 90 degrees apart when it is not positive.
\<close>

fun trace3 :: "mat3 \<Rightarrow> real" where
  "trace3 ((a11, a12, a13), (a21, a22, a23), (a31, a32, a33)) = a11 + a22 + a33"

fun det3 :: "mat3 \<Rightarrow> real" where
  "det3 ((a11, a12, a13), (a21, a22, a23), (a31, a32, a33)) =
     a11 * (a22 * a33 - a23 * a32) - a12 * (a21 * a33 - a23 * a31) +
     a13 * (a21 * a32 - a22 * a31)"

definition rotation_matrix :: "mat3 \<Rightarrow> bool" where
  "rotation_matrix Q \<longleftrightarrow> orthonormal Q \<and> det3 Q = 1"

definition rotation_cos :: "mat3 \<Rightarrow> mat3 \<Rightarrow> real" where
  "rotation_cos Qa Qb = (trace3 (mat_mul (transpose3 Qa) Qb) - 1) / 2"

text \<open>
  The half turns about the three axes, and the one that belongs to each of the eight
  entries of \<open>quat_array\<close>: the rotation of \<open>qa * quat_i\<close> is the rotation of \<open>qa\<close>
  after a half turn about the first axis, and so on.
\<close>

definition flip_x :: mat3 where
  "flip_x = ((1, 0, 0), (0, - 1, 0), (0, 0, - 1))"

definition flip_y :: mat3 where
  "flip_y = ((- 1, 0, 0), (0, 1, 0), (0, 0, - 1))"

definition flip_z :: mat3 where
  "flip_z = ((- 1, 0, 0), (0, - 1, 0), (0, 0, 1))"

definition representative_flip :: "nat \<Rightarrow> mat3" where
  "representative_flip i =
     [identity3, identity3, flip_x, flip_x, flip_y, flip_y, flip_z, flip_z] ! i"

text \<open>The rotation about the first axis by the angle with cosine -7/25 (about 106 degrees).\<close>

definition rot_x_106 :: mat3 where
  "rot_x_106 = ((1, 0, 0), (0, - 7 / 25, - 24 / 25), (0, 24 / 25, - 7 / 25))"

text \<open>
  A mesh of one point close to the left-ventricle surface: lv = 0.0005, no right
  ventricle, epi = 0.
\<close>

definition one_point_arguments :: arguments where
  "one_point_arguments =
     default_arguments [1 / 2000] [- 1, 0, 0] [0] [1, 0, 0] [0, 0, 1]"

text \<open>
  A mesh of two points with the default enumeration: the first point lies on the
  left-ventricle side (lv = 1), the second has lv = rv = epi = 0.
\<close>

definition two_point_arguments :: arguments where
  "two_point_arguments =
     default_arguments [1, 0] [- 1, 0, 0, 0, 0, 0] [0, 0] [0, 0, 0, 0, 0, 0]
       [0, 0, 1, 0, 0, 0]"

text \<open>
  A mesh of three points with the default enumeration: the first point has lv = 1 and a
  zero apex-to-base gradient, the second has lv = 1 and regular gradients, the third has
  lv = rv = epi = 0.
\<close>

definition three_point_arguments :: arguments where
  "three_point_arguments =
     default_arguments [1, 1, 0] [- 1, 0, 0, - 1, 0, 0, 0, 0, 0] [0, 0, 0]
       [0, 0, 0, 0, 0, 0, 0, 0, 0] [0, 0, 0, 0, 0, 1, 0, 0, 0]"

text \<open>The frame of the first of the two points, with the default angles 40 and -65.\<close>

definition two_point_frame :: mat3 where
  "two_point_frame =
     ((0, - sin (radians (- 65)), cos (radians (- 65))),
      (cos (radians 40), - (sin (radians 40) * cos (radians (- 65))),
         - (sin (radians 40) * sin (radians (- 65)))),
      (sin (radians 40), cos (radians 40) * cos (radians (- 65)),
         cos (radians 40) * sin (radians (- 65))))"

text \<open>A call that passes 0.0 for each of the eight right-ventricle and septum angles.\<close>

definition zero_angle_arguments :: arguments where
  "zero_angle_arguments =
     (default_arguments [] [] [] [] [])
       \<lparr>alpha_endo_rv := Some 0, alpha_epi_rv := Some 0,
        alpha_endo_sept := Some 0, alpha_epi_sept := Some 0,
        beta_endo_rv := Some 0, beta_epi_rv := Some 0,
        beta_endo_sept := Some 0, beta_epi_sept := Some 0\<rparr>"

section \<open>Properties\<close>

subsection \<open>The default enumeration\<close>

lemma length_zip4_le: "length (zip4 as bs cs ds) \<le> length as"
  by (induction as bs cs ds rule: zip4.induct) simp_all

lemma arange_zero_step_n:
  assumes "0 < n"
  shows "arange 0 (3 * n) n = Inr [0, n, 2 * n]"
proof -
  have "(3 * n + n - 1) div n = 3"
    using assms by (intro div_nat_eqI) auto
  then show ?thesis
    using assms by (simp add: arange_def upt_rec)
qed

lemma standard_dofs_at_most_three:
  "case standard_dofs n of Inl e \<Rightarrow> n = 0 | Inr ds \<Rightarrow> 0 < n \<and> length ds \<le> 3"
proof (cases "n = 0")
  case True
  then show ?thesis
    by (simp add: standard_dofs_def arange_def and_then_def)
next
  case False
  then have n: "0 < n" by simp
  obtain ys zs where "arange 1 (3 * n) n = Inr ys" "arange 2 (3 * n) n = Inr zs"
    using n by (simp add: arange_def)
  moreover obtain ss where "arange 0 n 1 = Inr ss"
    by (simp add: arange_def)
  ultimately have "standard_dofs n = Inr (zip4 [0, n, 2 * n] ys zs ss)"
    using arange_zero_step_n [OF n] by (simp add: standard_dofs_def and_then_def)
  moreover have "length (zip4 [0, n, 2 * n] ys zs ss) \<le> 3"
    using length_zip4_le [of "[0, n, 2 * n]" ys zs ss] by simp
  ultimately show ?thesis
    using n by simp
qed

text \<open>
  C1. With the enumeration omitted the loop runs over \<open>standard_dofs (len(lv_scalar))\<close>;
  the claim is that this visits every one of the n sample points. For four points the
  enumeration has three tuples only (and never more than three for any n, by
  \<open>standard_dofs_at_most_three\<close>): the point with scalar index 3 is not visited.
\<close>

theorem standard_dofs_four_points:
  "standard_dofs 4 = Inr [(0, 1, 2, 0), (4, 5, 6, 1), (8, 9, 10, 2)] \<and>
   dofs_or_standard (default_arguments [lv0, lv1, lv2, lv3] lvg epis epig apexg) =
     Inr [(0, 1, 2, 0), (4, 5, 6, 1), (8, 9, 10, 2)]"
  by (simp add: dofs_or_standard_def default_arguments_def standard_dofs_def arange_def
      and_then_def upt_rec)

subsection \<open>The angle defaults\<close>

lemma seven_defaults_follow_lv:
  "alpha_endo_rv P = None \<longrightarrow> a_endo_rv (resolve_angles P) = alpha_endo_lv P"
  "alpha_epi_rv P = None \<longrightarrow> a_epi_rv (resolve_angles P) = alpha_epi_lv P"
  "alpha_endo_sept P = None \<longrightarrow> a_endo_sept (resolve_angles P) = alpha_endo_lv P"
  "alpha_epi_sept P = None \<longrightarrow> a_epi_sept (resolve_angles P) = alpha_epi_lv P"
  "beta_endo_rv P = None \<longrightarrow> b_endo_rv (resolve_angles P) = beta_endo_lv P"
  "beta_epi_rv P = None \<longrightarrow> b_epi_rv (resolve_angles P) = beta_epi_lv P"
  "beta_epi_sept P = None \<longrightarrow> b_epi_sept (resolve_angles P) = beta_epi_lv P"
  by (simp_all add: resolve_angles_def py_or_def)

text \<open>
  C2. Each of the eight right-ventricle and septum angles that is not supplied is claimed
  to take the value of the left-ventricle angle of the same name. Seven do
  (\<open>seven_defaults_follow_lv\<close>); \<open>beta_endo_sept\<close> takes \<open>beta_epi_lv\<close>: with every
  optional argument omitted it is 25, while \<open>beta_endo_lv\<close> is -65.
\<close>

theorem beta_endo_sept_takes_beta_epi_lv:
  "b_endo_sept (resolve_angles (default_arguments lvs lvg epis epig apexg)) = 25 \<and>
   beta_endo_lv (default_arguments lvs lvg epis epig apexg) = - 65"
  by (simp add: resolve_angles_def default_arguments_def py_or_def)

text \<open>
  C10. A right-ventricle or septum angle passed as 0.0 is not used: the \<open>or\<close> replaces
  it by the left-ventricle value it falls back to (\<open>beta_epi_lv\<close> for
  \<open>beta_endo_sept\<close>, the angle of the same name for the other seven). Hence while that
  left-ventricle value is not zero, no argument makes the resolved angle zero.
\<close>

theorem zero_angle_replaced:
  "(alpha_endo_rv P = Some 0 \<longrightarrow> a_endo_rv (resolve_angles P) = alpha_endo_lv P) \<and>
   (alpha_epi_rv P = Some 0 \<longrightarrow> a_epi_rv (resolve_angles P) = alpha_epi_lv P) \<and>
   (alpha_endo_sept P = Some 0 \<longrightarrow> a_endo_sept (resolve_angles P) = alpha_endo_lv P) \<and>
   (alpha_epi_sept P = Some 0 \<longrightarrow> a_epi_sept (resolve_angles P) = alpha_epi_lv P) \<and>
   (beta_endo_rv P = Some 0 \<longrightarrow> b_endo_rv (resolve_angles P) = beta_endo_lv P) \<and>
   (beta_epi_rv P = Some 0 \<longrightarrow> b_epi_rv (resolve_angles P) = beta_epi_lv P) \<and>
   (beta_endo_sept P = Some 0 \<longrightarrow> b_endo_sept (resolve_angles P) = beta_epi_lv P) \<and>
   (beta_epi_sept P = Some 0 \<longrightarrow> b_epi_sept (resolve_angles P) = beta_epi_lv P) \<and>
   (alpha_endo_lv P \<noteq> 0 \<longrightarrow>
      a_endo_rv (resolve_angles P) \<noteq> 0 \<and> a_endo_sept (resolve_angles P) \<noteq> 0) \<and>
   (alpha_epi_lv P \<noteq> 0 \<longrightarrow>
      a_epi_rv (resolve_angles P) \<noteq> 0 \<and> a_epi_sept (resolve_angles P) \<noteq> 0) \<and>
   (beta_endo_lv P \<noteq> 0 \<longrightarrow> b_endo_rv (resolve_angles P) \<noteq> 0) \<and>
   (beta_epi_lv P \<noteq> 0 \<longrightarrow>
      b_epi_rv (resolve_angles P) \<noteq> 0 \<and> b_endo_sept (resolve_angles P) \<noteq> 0 \<and>
      b_epi_sept (resolve_angles P) \<noteq> 0)"
  by (simp add: resolve_angles_def py_or_def split: option.split)

theorem zero_angle_replaced_witness:
  "alpha_endo_rv zero_angle_arguments = Some 0 \<and>
   alpha_epi_rv zero_angle_arguments = Some 0 \<and>
   alpha_endo_sept zero_angle_arguments = Some 0 \<and>
   alpha_epi_sept zero_angle_arguments = Some 0 \<and>
   beta_endo_rv zero_angle_arguments = Some 0 \<and>
   beta_epi_rv zero_angle_arguments = Some 0 \<and>
   beta_endo_sept zero_angle_arguments = Some 0 \<and>
   beta_epi_sept zero_angle_arguments = Some 0 \<and>
   alpha_endo_lv zero_angle_arguments \<noteq> 0 \<and> alpha_epi_lv zero_angle_arguments \<noteq> 0 \<and>
   beta_endo_lv zero_angle_arguments \<noteq> 0 \<and> beta_epi_lv zero_angle_arguments \<noteq> 0 \<and>
   a_endo_rv (resolve_angles zero_angle_arguments) = 40 \<and>
   a_epi_rv (resolve_angles zero_angle_arguments) = - 50 \<and>
   a_endo_sept (resolve_angles zero_angle_arguments) = 40 \<and>
   a_epi_sept (resolve_angles zero_angle_arguments) = - 50 \<and>
   b_endo_rv (resolve_angles zero_angle_arguments) = - 65 \<and>
   b_epi_rv (resolve_angles zero_angle_arguments) = 25 \<and>
   b_endo_sept (resolve_angles zero_angle_arguments) = 25 \<and>
   b_epi_sept (resolve_angles zero_angle_arguments) = 25"
  using zero_angle_replaced [of zero_angle_arguments]
  by (simp add: zero_angle_arguments_def default_arguments_def)

subsection \<open>bislerp on absent frames\<close>

text \<open>
  C7. For every t, \<open>bislerp(None, None, t)\<close> is \<open>None\<close>, and with exactly one frame
  absent the other one is returned unchanged.
\<close>

theorem bislerp_absent_inputs:
  "bislerp L None None t = Inr None \<and>
   bislerp L (Some Q) None t = Inr (Some Q) \<and>
   bislerp L None (Some Q) t = Inr (Some Q)"
  by simp

subsection \<open>The depth guard of system_at_dof\<close>

lemma depth_of_positive_tol:
  assumes "0 < tol"
  shows "depth_of lv rv tol = Inr (if tol \<le> lv + rv then rv / (lv + rv) else 1 / 2)"
  using assms by (auto simp: depth_of_def)

lemma bislerp_left_only: "bislerp L Qa None t = Inr Qa"
  by (cases Qa) simp_all

lemma frames_at_depth_lv_only:
  assumes "tol < lv" and "rv \<le> tol" and "epi \<le> tol"
  shows "frames_at_depth L d lv rv epi grad_lv grad_rv grad_epi grad_ab
           alpha_endo alpha_epi beta_endo beta_epi tol =
         and_then (axis L grad_ab (smul (- 1) grad_lv)) (\<lambda>Q_lv.
           Inr (Some (orient Q_lv (alpha_endo * (1 - d) - alpha_endo * d)
                                  (beta_endo * (1 - d) - beta_endo * d))))"
  using assms
  by (cases "axis L grad_ab (smul (- 1) grad_lv)")
     (simp_all add: frames_at_depth_def and_then_def bislerp_left_only)

text \<open>
  C9. In \<open>system_at_dof\<close>, for non-negative lv and rv and a positive tolerance, the
  depth is rv / (lv + rv) when lv + rv \<ge> tol and 0.5 otherwise; the division is reached
  only with a positive divisor, so the division by zero is never reached. The frames of
  the point are those of lines 230 to 248 at this depth; at a point of the left ventricle
  alone (lv > tol, rv and epi not above it) the frame is the one of \<open>axis\<close>, rotated by
  the angles at the depth rv / (lv + rv).
\<close>

theorem depth_guard:
  assumes "0 \<le> lv" and "0 \<le> rv" and "0 < tol"
  shows "depth_of lv rv tol = Inr (if tol \<le> lv + rv then rv / (lv + rv) else 1 / 2) \<and>
         (tol \<le> lv + rv \<longrightarrow> 0 < lv + rv) \<and>
         system_at_dof L lv rv epi grad_lv grad_rv grad_epi grad_ab
             alpha_endo alpha_epi beta_endo beta_epi tol =
           frames_at_depth L (if tol \<le> lv + rv then rv / (lv + rv) else 1 / 2)
             lv rv epi grad_lv grad_rv grad_epi grad_ab
             alpha_endo alpha_epi beta_endo beta_epi tol \<and>
         (tol < lv \<and> rv \<le> tol \<and> epi \<le> tol \<longrightarrow>
            system_at_dof L lv rv epi grad_lv grad_rv grad_epi grad_ab
                alpha_endo alpha_epi beta_endo beta_epi tol =
              and_then (axis L grad_ab (smul (- 1) grad_lv)) (\<lambda>Q_lv.
                Inr (Some (orient Q_lv
                  (alpha_endo * (1 - rv / (lv + rv)) - alpha_endo * (rv / (lv + rv)))
                  (beta_endo * (1 - rv / (lv + rv)) - beta_endo * (rv / (lv + rv)))))))"
proof (intro conjI impI)
  show d: "depth_of lv rv tol = Inr (if tol \<le> lv + rv then rv / (lv + rv) else 1 / 2)"
    using assms(3) by (rule depth_of_positive_tol)
  show "0 < lv + rv" if "tol \<le> lv + rv"
    using that assms(3) by simp
  show s: "system_at_dof L lv rv epi grad_lv grad_rv grad_epi grad_ab
             alpha_endo alpha_epi beta_endo beta_epi tol =
           frames_at_depth L (if tol \<le> lv + rv then rv / (lv + rv) else 1 / 2)
             lv rv epi grad_lv grad_rv grad_epi grad_ab
             alpha_endo alpha_epi beta_endo beta_epi tol"
    by (simp only: system_at_dof_def d and_then_def sum.case)
  assume lv_only: "tol < lv \<and> rv \<le> tol \<and> epi \<le> tol"
  then have "tol \<le> lv + rv"
    using assms(2) by simp
  then show "system_at_dof L lv rv epi grad_lv grad_rv grad_epi grad_ab
                alpha_endo alpha_epi beta_endo beta_epi tol =
              and_then (axis L grad_ab (smul (- 1) grad_lv)) (\<lambda>Q_lv.
                Inr (Some (orient Q_lv
                  (alpha_endo * (1 - rv / (lv + rv)) - alpha_endo * (rv / (lv + rv)))
                  (beta_endo * (1 - rv / (lv + rv)) - beta_endo * (rv / (lv + rv))))))"
    using lv_only by (simp only: s if_True frames_at_depth_lv_only)
qed

theorem depth_guard_witness:
  "(0::real) \<le> 3 \<and> (0::real) \<le> 1 / 4 \<and> (0::real) < 1 / 2 \<and>
   (1 / 2 :: real) \<le> 3 + 1 / 4 \<and> (1 / 2 :: real) < 3 \<and> (1 / 4 :: real) \<le> 1 / 2 \<and>
   depth_of 3 (1 / 4) (1 / 2) = Inr (1 / 13) \<and>
   depth_of 0 0 (1 / 2) = Inr (1 / 2) \<and>
   system_at_dof exact_numerics 3 (1 / 4) 0 (- 1, 0, 0) (0, 0, 0) (1, 0, 0) (0, 0, 1)
       40 (- 50) (- 65) 25 (1 / 2) =
     frames_at_depth exact_numerics (1 / 13) 3 (1 / 4) 0 (- 1, 0, 0) (0, 0, 0) (1, 0, 0) (0, 0, 1)
       40 (- 50) (- 65) 25 (1 / 2) \<and>
   system_at_dof exact_numerics 3 (1 / 4) 0 (- 1, 0, 0) (0, 0, 0) (1, 0, 0) (0, 0, 1)
       40 (- 50) (- 65) 25 (1 / 2) =
     and_then (axis exact_numerics (0, 0, 1) (smul (- 1) (- 1, 0, 0))) (\<lambda>Q_lv.
       Inr (Some (orient Q_lv (440 / 13) (- 55))))"
proof -
  have h: "(0::real) \<le> 3" "(0::real) \<le> 1 / 4" "(0::real) < 1 / 2"
    by simp_all
  have h0: "(0::real) \<le> 0" "(0::real) \<le> 0" "(0::real) < 1 / 2"
    by simp_all
  note inst = depth_guard [OF h, where L = exact_numerics and epi = 0
    and grad_lv = "(- 1, 0, 0)" and grad_rv = "(0, 0, 0)" and grad_epi = "(1, 0, 0)"
    and grad_ab = "(0, 0, 1)" and alpha_endo = 40 and alpha_epi = "- 50"
    and beta_endo = "- 65" and beta_epi = 25]
  note zero = depth_guard [OF h0, where L = exact_numerics and epi = 0
    and grad_lv = "(- 1, 0, 0)" and grad_rv = "(0, 0, 0)" and grad_epi = "(1, 0, 0)"
    and grad_ab = "(0, 0, 1)" and alpha_endo = 40 and alpha_epi = "- 50"
    and beta_endo = "- 65" and beta_epi = 25]
  from inst [THEN conjunct1] have c1: "depth_of 3 (1 / 4) (1 / 2) = Inr (1 / 13)"
    by simp
  from inst [THEN conjunct2, THEN conjunct2, THEN conjunct1]
  have c3: "system_at_dof exact_numerics 3 (1 / 4) 0 (- 1, 0, 0) (0, 0, 0) (1, 0, 0) (0, 0, 1)
       40 (- 50) (- 65) 25 (1 / 2) =
     frames_at_depth exact_numerics (1 / 13) 3 (1 / 4) 0 (- 1, 0, 0) (0, 0, 0) (1, 0, 0) (0, 0, 1)
       40 (- 50) (- 65) 25 (1 / 2)"
    by simp
  from inst [THEN conjunct2, THEN conjunct2, THEN conjunct2]
  have c4: "system_at_dof exact_numerics 3 (1 / 4) 0 (- 1, 0, 0) (0, 0, 0) (1, 0, 0) (0, 0, 1)
       40 (- 50) (- 65) 25 (1 / 2) =
     and_then (axis exact_numerics (0, 0, 1) (smul (- 1) (- 1, 0, 0))) (\<lambda>Q_lv.
       Inr (Some (orient Q_lv (440 / 13) (- 55))))"
    by simp
  from zero [THEN conjunct1] have c0: "depth_of 0 0 (1 / 2) = Inr (1 / 2)"
    by simp
  have "(1 / 2 :: real) \<le> 3 + 1 / 4 \<and> (1 / 2 :: real) < 3 \<and> (1 / 4 :: real) \<le> 1 / 2"
    by simp
  with h c1 c3 c4 c0 show ?thesis
    by blast
qed

subsection \<open>Absent frames and the tolerance of the loop\<close>

lemma and_then_Inr: "and_then m f = Inr b \<longleftrightarrow> (\<exists>a. m = Inr a \<and> f a = Inr b)"
  by (cases m) (simp_all add: and_then_def)

lemma frames_at_depth_absent:
  assumes "lv \<le> tol" and "rv \<le> tol" and "epi \<le> tol"
  shows "frames_at_depth L d lv rv epi grad_lv grad_rv grad_epi grad_ab
           alpha_endo alpha_epi beta_endo beta_epi tol = Inr None"
  using assms by (simp add: frames_at_depth_def and_then_def)

lemma system_at_dof_absent:
  assumes "lv \<le> tol" and "rv \<le> tol" and "epi \<le> tol" and "lv + rv < tol \<or> lv + rv \<noteq> 0"
  shows "system_at_dof L lv rv epi grad_lv grad_rv grad_epi grad_ab
           alpha_endo alpha_epi beta_endo beta_epi tol = Inr None"
  using assms
  by (auto simp: system_at_dof_def depth_of_def and_then_def frames_at_depth_absent)

lemma bislerp_some_left: "bislerp L (Some Qa) Qb t \<noteq> Inr None"
proof (cases Qb)
  case None
  then show ?thesis by simp
next
  case (Some b)
  then show ?thesis
    by (cases Qa; cases b) (auto simp: and_then_def split: sum.splits nn.splits)
qed

lemma bislerp_some_right: "bislerp L Qa (Some Qb) t \<noteq> Inr None"
proof (cases Qa)
  case None
  then show ?thesis by simp
next
  case (Some a)
  then show ?thesis
    by (cases a; cases Qb) (auto simp: and_then_def split: sum.splits nn.splits)
qed

lemma bislerp_absent_only:
  assumes "bislerp L Qa Qb t = Inr None"
  shows "Qa = None \<and> Qb = None"
proof (cases Qa)
  case None
  with assms bislerp_some_right [of L Qa _ t] show ?thesis by (cases Qb) auto
next
  case (Some a)
  with assms bislerp_some_left [of L a Qb t] show ?thesis by simp
qed

lemma frames_at_depth_present:
  assumes "tol < lv \<or> tol < rv \<or> tol < epi"
  shows "frames_at_depth L d lv rv epi grad_lv grad_rv grad_epi grad_ab
           alpha_endo alpha_epi beta_endo beta_epi tol \<noteq> Inr None"
proof
  assume "frames_at_depth L d lv rv epi grad_lv grad_rv grad_epi grad_ab
           alpha_endo alpha_epi beta_endo beta_epi tol = Inr None"
  then obtain Q_lv Q_rv Q_endo Q_epi where
    lvf: "(if tol < lv
           then and_then (axis L grad_ab (smul (- 1) grad_lv)) (\<lambda>Q.
                  Inr (Some (orient Q (alpha_endo * (1 - d) - alpha_endo * d)
                                      (beta_endo * (1 - d) - beta_endo * d))))
           else Inr None) = Inr Q_lv"
    and rvf: "(if tol < rv
           then and_then (axis L grad_ab grad_rv) (\<lambda>Q.
                  Inr (Some (orient Q (alpha_endo * (1 - d) - alpha_endo * d)
                                      (beta_endo * (1 - d) - beta_endo * d))))
           else Inr None) = Inr Q_rv"
    and endo: "bislerp L Q_lv Q_rv d = Inr Q_endo"
    and epif: "(if tol < epi
           then and_then (axis L grad_ab grad_epi) (\<lambda>Q.
                  Inr (Some (orient Q (alpha_endo * (1 - epi) + alpha_epi * epi)
                                      (beta_endo * (1 - epi) + beta_epi * epi))))
           else Inr None) = Inr Q_epi"
    and fin: "bislerp L Q_endo Q_epi epi = Inr None"
    unfolding frames_at_depth_def Let_def and_then_Inr by blast
  from fin have n1: "Q_endo = None" "Q_epi = None"
    using bislerp_absent_only by blast+
  with endo have n2: "Q_lv = None" "Q_rv = None"
    using bislerp_absent_only by blast+
  from lvf n2 have "\<not> tol < lv" by (auto simp: and_then_Inr split: if_splits)
  moreover from rvf n2 have "\<not> tol < rv" by (auto simp: and_then_Inr split: if_splits)
  moreover from epif n1 have "\<not> tol < epi" by (auto simp: and_then_Inr split: if_splits)
  ultimately show False using assms by simp
qed

lemma system_at_dof_present:
  assumes "tol < lv \<or> tol < rv \<or> tol < epi"
  shows "system_at_dof L lv rv epi grad_lv grad_rv grad_epi grad_ab
           alpha_endo alpha_epi beta_endo beta_epi tol \<noteq> Inr None"
  using frames_at_depth_present [OF assms]
  by (cases "depth_of lv rv tol") (simp_all add: system_at_dof_def and_then_def)

lemma loop_body_absent:
  "frame_at L P rvs rvg A d = Inr None \<Longrightarrow> loop_body L P rvs rvg A S d = Inr S"
  by (cases d) (simp add: loop_body_def and_then_def)

lemma loop_skips_absent:
  "frame_at L P rvs rvg A d = Inr None \<Longrightarrow>
   loop L P rvs rvg A S (d # ds) = loop L P rvs rvg A S ds"
  by (simp add: loop_body_absent and_then_def)

lemma frame_at_reads:
  assumes "get1 (lv_scalar P) s = Inr lv" and "get1 rvs s = Inr rv"
    and "get1 (epi_scalar P) s = Inr epi"
    and "get3 (lv_gradient P) (x, y, z) = Inr glv" and "get3 rvg (x, y, z) = Inr grv"
    and "get3 (epi_gradient P) (x, y, z) = Inr gepi"
    and "get3 (apex_gradient P) (x, y, z) = Inr gab"
  shows "frame_at L P rvs rvg A (x, y, z, s) =
           (case select_angles A lv rv of (alpha_endo, beta_endo, alpha_epi, beta_epi) \<Rightarrow>
              system_at_dof L lv rv epi glv grv gepi gab
                alpha_endo alpha_epi beta_endo beta_epi class_tol)"
  using assms by (simp add: frame_at_def and_then_def)

lemma system_at_dof_class_tol:
  "system_at_dof L lv rv epi glv grv gepi gab ae aep be bep class_tol =
     frames_at_depth L (if lv + rv < 1 / 1000 then 1 / 2 else rv / (lv + rv))
       lv rv epi glv grv gepi gab ae aep be bep (1 / 1000)"
  by (auto simp: system_at_dof_def depth_of_def and_then_def class_tol_def)

text \<open>
  C3 (as amended). The tolerance 1e-3 of \<open>compute_fiber_sheet_system\<close> classifies the
  region (left ventricle, right ventricle, septum, or the left-ventricle angles for any
  other point), and the same 1e-3 is the tolerance that every call of \<open>system_at_dof\<close>
  in the loop receives: the depth is 0.5 when lv + rv < 1e-3 and rv / (lv + rv)
  otherwise, and the frame of a tuple is absent when the three scalars are at most 1e-3
  and present (or an exception) when one of them exceeds 1e-3. The default 1e-7 applies
  only to calls that omit the tolerance.
\<close>

theorem loop_passes_its_tolerance:
  assumes "get1 (lv_scalar P) s = Inr lv" and "get1 rvs s = Inr rv"
    and "get1 (epi_scalar P) s = Inr epi"
    and "get3 (lv_gradient P) (x, y, z) = Inr glv" and "get3 rvg (x, y, z) = Inr grv"
    and "get3 (epi_gradient P) (x, y, z) = Inr gepi"
    and "get3 (apex_gradient P) (x, y, z) = Inr gab"
  shows "frame_at L P rvs rvg A (x, y, z, s) =
           (case (if 1 / 1000 < lv \<and> rv < 1 / 1000
                    then (a_endo_lv A, b_endo_lv A, a_epi_lv A, b_epi_lv A)
                  else if lv < 1 / 1000 \<and> 1 / 1000 < rv
                    then (a_endo_rv A, b_endo_rv A, a_epi_rv A, b_epi_rv A)
                  else if 1 / 1000 < lv \<and> 1 / 1000 < rv
                    then (a_endo_sept A, b_endo_sept A, a_epi_sept A, b_epi_sept A)
                  else (a_endo_lv A, b_endo_lv A, a_epi_lv A, b_epi_lv A))
            of (alpha_endo, beta_endo, alpha_epi, beta_epi) \<Rightarrow>
              frames_at_depth L (if lv + rv < 1 / 1000 then 1 / 2 else rv / (lv + rv))
                lv rv epi glv grv gepi gab
                alpha_endo alpha_epi beta_endo beta_epi (1 / 1000)) \<and>
         (lv \<le> 1 / 1000 \<and> rv \<le> 1 / 1000 \<and> epi \<le> 1 / 1000 \<longrightarrow>
            frame_at L P rvs rvg A (x, y, z, s) = Inr None) \<and>
         (1 / 1000 < lv \<or> 1 / 1000 < rv \<or> 1 / 1000 < epi \<longrightarrow>
            frame_at L P rvs rvg A (x, y, z, s) \<noteq> Inr None)"
proof -
  have eq: "frame_at L P rvs rvg A (x, y, z, s) =
           (case (if 1 / 1000 < lv \<and> rv < 1 / 1000
                    then (a_endo_lv A, b_endo_lv A, a_epi_lv A, b_epi_lv A)
                  else if lv < 1 / 1000 \<and> 1 / 1000 < rv
                    then (a_endo_rv A, b_endo_rv A, a_epi_rv A, b_epi_rv A)
                  else if 1 / 1000 < lv \<and> 1 / 1000 < rv
                    then (a_endo_sept A, b_endo_sept A, a_epi_sept A, b_epi_sept A)
                  else (a_endo_lv A, b_endo_lv A, a_epi_lv A, b_epi_lv A))
            of (alpha_endo, beta_endo, alpha_epi, beta_epi) \<Rightarrow>
              frames_at_depth L (if lv + rv < 1 / 1000 then 1 / 2 else rv / (lv + rv))
                lv rv epi glv grv gepi gab
                alpha_endo alpha_epi beta_endo beta_epi (1 / 1000))"
    unfolding frame_at_reads [OF assms] system_at_dof_class_tol
    by (simp add: select_angles_def class_tol_def Let_def)
  obtain ae be aep bep where sel: "select_angles A lv rv = (ae, be, aep, bep)"
    by (cases "select_angles A lv rv") auto
  have fr: "frame_at L P rvs rvg A (x, y, z, s) =
      frames_at_depth L (if lv + rv < 1 / 1000 then 1 / 2 else rv / (lv + rv))
        lv rv epi glv grv gepi gab ae aep be bep (1 / 1000)"
    unfolding frame_at_reads [OF assms] system_at_dof_class_tol by (simp add: sel)
  have absent: "frame_at L P rvs rvg A (x, y, z, s) = Inr None"
    if "lv \<le> 1 / 1000 \<and> rv \<le> 1 / 1000 \<and> epi \<le> 1 / 1000"
    unfolding fr using that by (intro frames_at_depth_absent) auto
  have present: "frame_at L P rvs rvg A (x, y, z, s) \<noteq> Inr None"
    if "1 / 1000 < lv \<or> 1 / 1000 < rv \<or> 1 / 1000 < epi"
    unfolding fr using that by (rule frames_at_depth_present)
  show ?thesis
    using eq absent present by blast
qed

lemma one_point_dofs: "dofs_or_standard one_point_arguments = Inr [(0, 1, 2, 0)]"
  by (simp add: dofs_or_standard_def one_point_arguments_def default_arguments_def
      standard_dofs_def arange_def and_then_def upt_rec)

lemma one_point_reads:
  "get1 (lv_scalar one_point_arguments) 0 = Inr (1 / 2000)"
  "get1 (rv_scalar_or_zeros one_point_arguments) 0 = Inr 0"
  "get1 (epi_scalar one_point_arguments) 0 = Inr 0"
  "get3 (lv_gradient one_point_arguments) (0, 1, 2) = Inr (- 1, 0, 0)"
  "get3 (rv_gradient_or_zeros one_point_arguments) (0, 1, 2) = Inr (0, 0, 0)"
  "get3 (epi_gradient one_point_arguments) (0, 1, 2) = Inr (1, 0, 0)"
  "get3 (apex_gradient one_point_arguments) (0, 1, 2) = Inr (0, 0, 1)"
  by (simp_all add: one_point_arguments_def default_arguments_def get1_def get3_def
      rv_scalar_or_zeros_def rv_gradient_or_zeros_def zeros_like_def)

lemma one_point_frame:
  "frame_at exact_numerics one_point_arguments (rv_scalar_or_zeros one_point_arguments)
     (rv_gradient_or_zeros one_point_arguments) (resolve_angles one_point_arguments)
     (0, 1, 2, 0) = Inr None"
  unfolding frame_at_reads [OF one_point_reads]
  by (simp add: system_at_dof_class_tol frames_at_depth_absent split: prod.splits)

lemma unit_normalize:
  "normalize (0, 0, 1) = Finite (0, 0, 1)" "normalize (1, 0, 0) = Finite (1, 0, 0)"
  "normalize (0, 1, 0) = Finite (0, 1, 0)"
  by (simp_all add: normalize_def vnorm_def)

lemma two_point_axis:
  "axis exact_numerics (0, 0, 1) (1, 0, 0) =
     Inr (Finite (0, 1, 0), Finite (0, 0, 1), Finite (1, 0, 0))"
  by (simp add: axis_def unit_normalize nn_bind_def and_then_def exact_numerics_def Let_def)


lemma two_point_orient:
  "orient (Finite (0, 1, 0), Finite (0, 0, 1), Finite (1, 0, 0)) 40 (- 65) =
     Finite two_point_frame"
  by (simp add: orient_def nn_bind_def mat_mul_def Let_def two_point_frame_def)



lemma two_point_reads_first:
  "get1 (lv_scalar two_point_arguments) 0 = Inr 1"
  "get1 (rv_scalar_or_zeros two_point_arguments) 0 = Inr 0"
  "get1 (epi_scalar two_point_arguments) 0 = Inr 0"
  "get3 (lv_gradient two_point_arguments) (0, 1, 2) = Inr (- 1, 0, 0)"
  "get3 (rv_gradient_or_zeros two_point_arguments) (0, 1, 2) = Inr (0, 0, 0)"
  "get3 (epi_gradient two_point_arguments) (0, 1, 2) = Inr (0, 0, 0)"
  "get3 (apex_gradient two_point_arguments) (0, 1, 2) = Inr (0, 0, 1)"
  by (simp_all add: two_point_arguments_def default_arguments_def get1_def get3_def
      rv_scalar_or_zeros_def rv_gradient_or_zeros_def zeros_like_def)








theorem loop_passes_its_tolerance_witness:
  "get1 (lv_scalar one_point_arguments) 0 = Inr (1 / 2000) \<and>
   get1 (rv_scalar_or_zeros one_point_arguments) 0 = Inr 0 \<and>
   get1 (epi_scalar one_point_arguments) 0 = Inr 0 \<and>
   get3 (lv_gradient one_point_arguments) (0, 1, 2) = Inr (- 1, 0, 0) \<and>
   get3 (rv_gradient_or_zeros one_point_arguments) (0, 1, 2) = Inr (0, 0, 0) \<and>
   get3 (epi_gradient one_point_arguments) (0, 1, 2) = Inr (1, 0, 0) \<and>
   get3 (apex_gradient one_point_arguments) (0, 1, 2) = Inr (0, 0, 1) \<and>
   (1 / 2000 :: real) \<le> 1 / 1000 \<and> (0 :: real) \<le> 1 / 1000 \<and>
   frame_at exact_numerics one_point_arguments (rv_scalar_or_zeros one_point_arguments)
     (rv_gradient_or_zeros one_point_arguments) (resolve_angles one_point_arguments)
     (0, 1, 2, 0) = Inr None \<and>
   get1 (lv_scalar two_point_arguments) 0 = Inr 1 \<and>
   get1 (rv_scalar_or_zeros two_point_arguments) 0 = Inr 0 \<and>
   get1 (epi_scalar two_point_arguments) 0 = Inr 0 \<and>
   get3 (lv_gradient two_point_arguments) (0, 1, 2) = Inr (- 1, 0, 0) \<and>
   get3 (rv_gradient_or_zeros two_point_arguments) (0, 1, 2) = Inr (0, 0, 0) \<and>
   get3 (epi_gradient two_point_arguments) (0, 1, 2) = Inr (0, 0, 0) \<and>
   get3 (apex_gradient two_point_arguments) (0, 1, 2) = Inr (0, 0, 1) \<and>
   (1 / 1000 :: real) < 1 \<and>
   frame_at exact_numerics two_point_arguments (rv_scalar_or_zeros two_point_arguments)
     (rv_gradient_or_zeros two_point_arguments) (resolve_angles two_point_arguments)
     (0, 1, 2, 0) \<noteq> Inr None \<and>
   frame_at exact_numerics two_point_arguments (rv_scalar_or_zeros two_point_arguments)
     (rv_gradient_or_zeros two_point_arguments) (resolve_angles two_point_arguments)
     (0, 1, 2, 0) =
     frames_at_depth exact_numerics 0 1 0 0 (- 1, 0, 0) (0, 0, 0) (0, 0, 0) (0, 0, 1)
       40 (- 50) (- 65) 25 (1 / 1000)"
proof -
  note inst1 = loop_passes_its_tolerance
    [OF one_point_reads, of exact_numerics "resolve_angles one_point_arguments"]
  note inst2 = loop_passes_its_tolerance
    [OF two_point_reads_first, of exact_numerics "resolve_angles two_point_arguments"]
  have small: "(1 / 2000 :: real) \<le> 1 / 1000" "(0 :: real) \<le> 1 / 1000" "(1 / 1000 :: real) < 1"
    by simp_all
  from inst1 [THEN conjunct2, THEN conjunct1] small
  have a: "frame_at exact_numerics one_point_arguments
     (rv_scalar_or_zeros one_point_arguments) (rv_gradient_or_zeros one_point_arguments)
     (resolve_angles one_point_arguments) (0, 1, 2, 0) = Inr None"
    by blast
  from inst2 [THEN conjunct2, THEN conjunct2] small
  have b: "frame_at exact_numerics two_point_arguments
     (rv_scalar_or_zeros two_point_arguments) (rv_gradient_or_zeros two_point_arguments)
     (resolve_angles two_point_arguments) (0, 1, 2, 0) \<noteq> Inr None"
    by blast
  have angles: "a_endo_lv (resolve_angles two_point_arguments) = 40"
    "b_endo_lv (resolve_angles two_point_arguments) = - 65"
    "a_epi_lv (resolve_angles two_point_arguments) = - 50"
    "b_epi_lv (resolve_angles two_point_arguments) = 25"
    by (simp_all add: resolve_angles_def two_point_arguments_def default_arguments_def)
  from inst2 [THEN conjunct1]
  have c: "frame_at exact_numerics two_point_arguments
     (rv_scalar_or_zeros two_point_arguments) (rv_gradient_or_zeros two_point_arguments)
     (resolve_angles two_point_arguments) (0, 1, 2, 0) =
     frames_at_depth exact_numerics 0 1 0 0 (- 1, 0, 0) (0, 0, 0) (0, 0, 0) (0, 0, 1)
       40 (- 50) (- 65) 25 (1 / 1000)"
    by (simp add: angles)
  from a b c small one_point_reads two_point_reads_first show ?thesis
    by blast
qed

text \<open>
  The claim as stated fails: at the point with lv = 0.0005 the loop obtains no frame,
  while \<open>system_at_dof\<close> with its default tolerance 1e-7 does not return \<open>None\<close> on the
  same data.
\<close>

theorem engine_tolerance_counterexample:
  "frame_at exact_numerics one_point_arguments (rv_scalar_or_zeros one_point_arguments)
     (rv_gradient_or_zeros one_point_arguments) (resolve_angles one_point_arguments)
     (0, 1, 2, 0) = Inr None \<and>
   system_at_dof exact_numerics (1 / 2000) 0 0 (- 1, 0, 0) (0, 0, 0) (1, 0, 0) (0, 0, 1)
     40 (- 50) (- 65) 25 default_tol \<noteq> Inr None"
proof
  show "frame_at exact_numerics one_point_arguments (rv_scalar_or_zeros one_point_arguments)
     (rv_gradient_or_zeros one_point_arguments) (resolve_angles one_point_arguments)
     (0, 1, 2, 0) = Inr None"
    by (rule one_point_frame)
  show "system_at_dof exact_numerics (1 / 2000) 0 0 (- 1, 0, 0) (0, 0, 0) (1, 0, 0) (0, 0, 1)
     40 (- 50) (- 65) 25 default_tol \<noteq> Inr None"
    by (rule system_at_dof_present) (simp add: default_tol_def)
qed

text \<open>
  A degenerate gradient does not end the run: the frame of the point is NaN, it is written
  like any other, and the loop goes on to the next tuples.
\<close>

lemma degenerate_axis:
  "axis exact_numerics (0, 0, 0) (1, 0, 0) = Inr (NaNs, NaNs, NaNs)"
  by (simp add: axis_def normalize_def vnorm_def nn_bind_def and_then_def exact_numerics_def
      Let_def)

lemma standard_dofs_three_points:
  "standard_dofs 3 = Inr [(0, 1, 2, 0), (3, 4, 5, 1), (6, 7, 8, 2)]"
  by (simp add: standard_dofs_def arange_def and_then_def upt_rec)

lemma three_point_dofs:
  "dofs_or_standard three_point_arguments = Inr [(0, 1, 2, 0), (3, 4, 5, 1), (6, 7, 8, 2)]"
proof -
  have "dofs three_point_arguments = None" and "length (lv_scalar three_point_arguments) = 3"
    by (simp_all add: three_point_arguments_def default_arguments_def)
  then show ?thesis
    by (simp only: dofs_or_standard_def option.case standard_dofs_three_points)
qed

lemma three_point_reads:
  "get1 (lv_scalar three_point_arguments) 0 = Inr 1"
  "get1 (rv_scalar_or_zeros three_point_arguments) 0 = Inr 0"
  "get1 (epi_scalar three_point_arguments) 0 = Inr 0"
  "get3 (lv_gradient three_point_arguments) (0, 1, 2) = Inr (- 1, 0, 0)"
  "get3 (rv_gradient_or_zeros three_point_arguments) (0, 1, 2) = Inr (0, 0, 0)"
  "get3 (epi_gradient three_point_arguments) (0, 1, 2) = Inr (0, 0, 0)"
  "get3 (apex_gradient three_point_arguments) (0, 1, 2) = Inr (0, 0, 0)"
  "get1 (lv_scalar three_point_arguments) 1 = Inr 1"
  "get1 (rv_scalar_or_zeros three_point_arguments) 1 = Inr 0"
  "get1 (epi_scalar three_point_arguments) 1 = Inr 0"
  "get3 (lv_gradient three_point_arguments) (3, 4, 5) = Inr (- 1, 0, 0)"
  "get3 (rv_gradient_or_zeros three_point_arguments) (3, 4, 5) = Inr (0, 0, 0)"
  "get3 (epi_gradient three_point_arguments) (3, 4, 5) = Inr (0, 0, 0)"
  "get3 (apex_gradient three_point_arguments) (3, 4, 5) = Inr (0, 0, 1)"
  "get1 (lv_scalar three_point_arguments) 2 = Inr 0"
  "get1 (rv_scalar_or_zeros three_point_arguments) 2 = Inr 0"
  "get1 (epi_scalar three_point_arguments) 2 = Inr 0"
  "get3 (lv_gradient three_point_arguments) (6, 7, 8) = Inr (0, 0, 0)"
  "get3 (rv_gradient_or_zeros three_point_arguments) (6, 7, 8) = Inr (0, 0, 0)"
  "get3 (epi_gradient three_point_arguments) (6, 7, 8) = Inr (0, 0, 0)"
  "get3 (apex_gradient three_point_arguments) (6, 7, 8) = Inr (0, 0, 0)"
  by (simp_all add: three_point_arguments_def default_arguments_def get1_def get3_def
      rv_scalar_or_zeros_def rv_gradient_or_zeros_def zeros_like_def)

lemma three_point_angles:
  "select_angles (resolve_angles three_point_arguments) 1 0 = (40, - 65, - 50, 25)"
  by (simp add: select_angles_def resolve_angles_def three_point_arguments_def
      default_arguments_def class_tol_def Let_def)

lemma three_point_frames:
  "frame_at exact_numerics three_point_arguments (rv_scalar_or_zeros three_point_arguments)
     (rv_gradient_or_zeros three_point_arguments) (resolve_angles three_point_arguments)
     (0, 1, 2, 0) = Inr (Some NaNs)"
  "frame_at exact_numerics three_point_arguments (rv_scalar_or_zeros three_point_arguments)
     (rv_gradient_or_zeros three_point_arguments) (resolve_angles three_point_arguments)
     (3, 4, 5, 1) = Inr (Some (Finite two_point_frame))"
  "frame_at exact_numerics three_point_arguments (rv_scalar_or_zeros three_point_arguments)
     (rv_gradient_or_zeros three_point_arguments) (resolve_angles three_point_arguments)
     (6, 7, 8, 2) = Inr None"
proof -
  show "frame_at exact_numerics three_point_arguments
     (rv_scalar_or_zeros three_point_arguments) (rv_gradient_or_zeros three_point_arguments)
     (resolve_angles three_point_arguments) (0, 1, 2, 0) = Inr (Some NaNs)"
    unfolding frame_at_reads [OF three_point_reads(1-7)] three_point_angles
    by (simp add: system_at_dof_class_tol frames_at_depth_def degenerate_axis orient_def
        nn_bind_def and_then_def)
  show "frame_at exact_numerics three_point_arguments
     (rv_scalar_or_zeros three_point_arguments) (rv_gradient_or_zeros three_point_arguments)
     (resolve_angles three_point_arguments) (3, 4, 5, 1) = Inr (Some (Finite two_point_frame))"
    unfolding frame_at_reads [OF three_point_reads(8-14)] three_point_angles
    by (simp add: system_at_dof_class_tol frames_at_depth_def two_point_axis two_point_orient
        and_then_def)
  show "frame_at exact_numerics three_point_arguments
     (rv_scalar_or_zeros three_point_arguments) (rv_gradient_or_zeros three_point_arguments)
     (resolve_angles three_point_arguments) (6, 7, 8, 2) = Inr None"
    unfolding frame_at_reads [OF three_point_reads(15-21)]
    by (simp add: system_at_dof_class_tol frames_at_depth_absent split: prod.splits)
qed

lemma three_point_bodies:
  "loop_body exact_numerics three_point_arguments (rv_scalar_or_zeros three_point_arguments)
     (rv_gradient_or_zeros three_point_arguments) (resolve_angles three_point_arguments)
     \<lparr>fiber = 
          [Finite 0, Finite 0, Finite 0, Finite 0, Finite 0, Finite 0, Finite 0, Finite 0, Finite 0], sheet = 
          [Finite 0, Finite 0, Finite 0, Finite 0, Finite 0, Finite 0, Finite 0, Finite 0, Finite 0],
      sheet_normal = 
          [Finite 0, Finite 0, Finite 0, Finite 0, Finite 0, Finite 0, Finite 0, Finite 0, Finite 0]\<rparr> (0, 1, 2, 0) =
   Inr \<lparr>fiber = 
          [NaNs, NaNs, NaNs, Finite 0, Finite 0, Finite 0, Finite 0, Finite 0, Finite 0],
        sheet = 
          [NaNs, NaNs, NaNs, Finite 0, Finite 0, Finite 0, Finite 0, Finite 0, Finite 0],
        sheet_normal = 
          [NaNs, NaNs, NaNs, Finite 0, Finite 0, Finite 0, Finite 0, Finite 0, Finite 0]\<rparr>"
  "loop_body exact_numerics three_point_arguments (rv_scalar_or_zeros three_point_arguments)
     (rv_gradient_or_zeros three_point_arguments) (resolve_angles three_point_arguments)
     \<lparr>fiber = 
          [NaNs, NaNs, NaNs, Finite 0, Finite 0, Finite 0, Finite 0, Finite 0, Finite 0],
      sheet = 
          [NaNs, NaNs, NaNs, Finite 0, Finite 0, Finite 0, Finite 0, Finite 0, Finite 0],
      sheet_normal = 
          [NaNs, NaNs, NaNs, Finite 0, Finite 0, Finite 0, Finite 0, Finite 0, Finite 0]\<rparr> (3, 4, 5, 1) =
   Inr \<lparr>fiber = [NaNs, NaNs, NaNs, Finite 0, Finite (cos (radians 40)),
                 Finite (sin (radians 40)), Finite 0, Finite 0, Finite 0],
        sheet = [NaNs, NaNs, NaNs, Finite (- sin (radians (- 65))),
                 Finite (- (sin (radians 40) * cos (radians (- 65)))),
                 Finite (cos (radians 40) * cos (radians (- 65))),
                 Finite 0, Finite 0, Finite 0],
        sheet_normal = [NaNs, NaNs, NaNs, Finite (cos (radians (- 65))),
                 Finite (- (sin (radians 40) * sin (radians (- 65)))),
                 Finite (cos (radians 40) * sin (radians (- 65))),
                 Finite 0, Finite 0, Finite 0]\<rparr>"
proof -
  show "loop_body exact_numerics three_point_arguments
     (rv_scalar_or_zeros three_point_arguments) (rv_gradient_or_zeros three_point_arguments)
     (resolve_angles three_point_arguments)
     \<lparr>fiber = 
          [Finite 0, Finite 0, Finite 0, Finite 0, Finite 0, Finite 0, Finite 0, Finite 0, Finite 0], sheet = 
          [Finite 0, Finite 0, Finite 0, Finite 0, Finite 0, Finite 0, Finite 0, Finite 0, Finite 0],
      sheet_normal = 
          [Finite 0, Finite 0, Finite 0, Finite 0, Finite 0, Finite 0, Finite 0, Finite 0, Finite 0]\<rparr> (0, 1, 2, 0) =
   Inr \<lparr>fiber = 
          [NaNs, NaNs, NaNs, Finite 0, Finite 0, Finite 0, Finite 0, Finite 0, Finite 0],
        sheet = 
          [NaNs, NaNs, NaNs, Finite 0, Finite 0, Finite 0, Finite 0, Finite 0, Finite 0],
        sheet_normal = 
          [NaNs, NaNs, NaNs, Finite 0, Finite 0, Finite 0, Finite 0, Finite 0, Finite 0]\<rparr>"
    by (simp only: loop_body_def prod.case Let_def three_point_frames and_then_def sum.case
        option.case)
       (simp add: set3_def nn_map_def numeral_eq_Suc)
  show "loop_body exact_numerics three_point_arguments
     (rv_scalar_or_zeros three_point_arguments) (rv_gradient_or_zeros three_point_arguments)
     (resolve_angles three_point_arguments)
     \<lparr>fiber = 
          [NaNs, NaNs, NaNs, Finite 0, Finite 0, Finite 0, Finite 0, Finite 0, Finite 0],
      sheet = 
          [NaNs, NaNs, NaNs, Finite 0, Finite 0, Finite 0, Finite 0, Finite 0, Finite 0],
      sheet_normal = 
          [NaNs, NaNs, NaNs, Finite 0, Finite 0, Finite 0, Finite 0, Finite 0, Finite 0]\<rparr> (3, 4, 5, 1) =
   Inr \<lparr>fiber = [NaNs, NaNs, NaNs, Finite 0, Finite (cos (radians 40)),
                 Finite (sin (radians 40)), Finite 0, Finite 0, Finite 0],
        sheet = [NaNs, NaNs, NaNs, Finite (- sin (radians (- 65))),
                 Finite (- (sin (radians 40) * cos (radians (- 65)))),
                 Finite (cos (radians 40) * cos (radians (- 65))),
                 Finite 0, Finite 0, Finite 0],
        sheet_normal = [NaNs, NaNs, NaNs, Finite (cos (radians (- 65))),
                 Finite (- (sin (radians 40) * sin (radians (- 65)))),
                 Finite (cos (radians 40) * sin (radians (- 65))),
                 Finite 0, Finite 0, Finite 0]\<rparr>"
    by (simp only: loop_body_def prod.case Let_def three_point_frames and_then_def sum.case
        option.case)
       (simp add: set3_def nn_map_def col0_def col1_def col2_def two_point_frame_def
          numeral_eq_Suc)
qed

lemma three_point_run:
  "compute_fiber_sheet_system exact_numerics three_point_arguments =
     Inr \<lparr>fiber = [NaNs, NaNs, NaNs, Finite 0, Finite (cos (radians 40)),
                   Finite (sin (radians 40)), Finite 0, Finite 0, Finite 0],
          sheet = [NaNs, NaNs, NaNs, Finite (- sin (radians (- 65))),
                   Finite (- (sin (radians 40) * cos (radians (- 65)))),
                   Finite (cos (radians 40) * cos (radians (- 65))),
                   Finite 0, Finite 0, Finite 0],
          sheet_normal = [NaNs, NaNs, NaNs, Finite (cos (radians (- 65))),
                   Finite (- (sin (radians 40) * sin (radians (- 65)))),
                   Finite (cos (radians 40) * sin (radians (- 65))),
                   Finite 0, Finite 0, Finite 0]\<rparr>"
proof -
  have z: "zero_field (lv_gradient three_point_arguments) = 
          [Finite 0, Finite 0, Finite 0, Finite 0, Finite 0, Finite 0, Finite 0, Finite 0, Finite 0]"
    by (simp add: zero_field_def three_point_arguments_def default_arguments_def)
  show ?thesis
    by (simp only: compute_fiber_sheet_system_def three_point_dofs and_then_def sum.case Let_def
        z loop.simps three_point_bodies loop_body_absent [OF three_point_frames(3)])
qed


subsection \<open>The short circuit of bislerp\<close>

lemma argmax_less: "xs \<noteq> [] \<Longrightarrow> argmax xs < length xs"
  by (induction xs rule: argmax.induct) (auto simp: Let_def)

lemma argmax_greatest: "i < length xs \<Longrightarrow> xs ! i \<le> xs ! argmax xs"
proof (induction xs arbitrary: i rule: argmax.induct)
  case 1
  then show ?case by simp
next
  case (2 a)
  then show ?case by simp
next
  case (3 a b bs)
  show ?case
  proof (cases i)
    case 0
    then show ?thesis by (auto simp: Let_def)
  next
    case (Suc j)
    with "3.prems" have "j < length (b # bs)" by simp
    then have "(b # bs) ! j \<le> (b # bs) ! argmax (b # bs)" by (rule "3.IH")
    then show ?thesis using Suc by (auto simp: Let_def)
  qed
qed

lemma sqrt_square: "0 \<le> y \<Longrightarrow> y * y = x \<Longrightarrow> sqrt x = y"
  by (metis real_sqrt_abs2 abs_of_nonneg)

lemma exact_frm_identity: "exact_from_rotation_matrix identity3 = Quat 1 0 0 0"
proof -
  have "sqrt 16 = 4" by (rule sqrt_square) simp_all
  then show ?thesis
    by (simp add: exact_from_rotation_matrix_def identity3_def Let_def qnorm_def)
qed

lemma exact_frm_flip_x:
  "exact_from_rotation_matrix flip_x = Quat 0 1 0 0"
proof -
  have "sqrt 16 = 4" by (rule sqrt_square) simp_all
  then show ?thesis
    by (simp add: exact_from_rotation_matrix_def flip_x_def Let_def qnorm_def)
qed

lemma exact_frm_rot_x:
  "exact_from_rotation_matrix rot_x_106 = Quat (3 / 5) (4 / 5) 0 0"
proof -
  have r: "sqrt (256 / 25) = 16 / 5" by (rule sqrt_square) simp_all
  show ?thesis
    by (simp add: exact_from_rotation_matrix_def rot_x_106_def Let_def qnorm_def) (simp add: r)
qed

lemma dot_arr_length: "length (dot_arr L Qa Qb) = 8"
  by (simp add: dot_arr_def quat_array_def)

lemma max_dot_greatest: "i < 8 \<Longrightarrow> dot_arr L Qa Qb ! i \<le> max_dot L Qa Qb"
  unfolding max_dot_def max_idx_def
  by (rule argmax_greatest) (simp add: dot_arr_length)

lemma dot_arr_first:
  "dot_arr L Qa Qb ! 0 = \<bar>dot (from_rotation_matrix L Qa) (from_rotation_matrix L Qb)\<bar>"
  by (simp add: dot_arr_def quat_array_def)

lemma dot_self: "dot q q = qnorm q"
  by (simp add: dot_def qnorm_def)

lemma qnorm_nonneg: "0 \<le> qnorm q"
  by (simp add: qnorm_def)

text \<open>
  C8. Whenever the maximal absolute dot product over the eight representatives exceeds
  1 - 1e-12, \<open>bislerp\<close> returns \<open>Qb\<close> itself, without interpolating. In particular, for a
  frame Q whose quaternion has unit norm (as the conversion of a rotation matrix has, up
  to rounding far below 1e-12), \<open>bislerp(Q, Q, t)\<close> is Q for every t.
\<close>

theorem bislerp_short_circuit:
  "(1 - 1 / 10 ^ 12 < max_dot L Qa Qb \<longrightarrow>
      bislerp L (Some (Finite Qa)) (Some (Finite Qb)) t = Inr (Some (Finite Qb))) \<and>
   (1 - 1 / 10 ^ 12 < qnorm (from_rotation_matrix L Q) \<longrightarrow>
      bislerp L (Some (Finite Q)) (Some (Finite Q)) t = Inr (Some (Finite Q)))"
proof (intro conjI impI)
  assume "1 - 1 / 10 ^ 12 < max_dot L Qa Qb"
  then show "bislerp L (Some (Finite Qa)) (Some (Finite Qb)) t = Inr (Some (Finite Qb))"
    by (simp add: bislerp_tol_def)
next
  assume a: "1 - 1 / 10 ^ 12 < qnorm (from_rotation_matrix L Q)"
  have "dot_arr L Q Q ! 0 = qnorm (from_rotation_matrix L Q)"
    using qnorm_nonneg [of "from_rotation_matrix L Q"] by (simp add: dot_arr_first dot_self)
  moreover have "dot_arr L Q Q ! 0 \<le> max_dot L Q Q"
    by (rule max_dot_greatest) simp
  ultimately have "1 - 1 / 10 ^ 12 < max_dot L Q Q"
    using a by simp
  then show "bislerp L (Some (Finite Q)) (Some (Finite Q)) t = Inr (Some (Finite Q))"
    by (simp add: bislerp_tol_def)
qed

lemma from_rotation_matrix_exact [simp]:
  "from_rotation_matrix exact_numerics = exact_from_rotation_matrix"
  by (simp add: exact_numerics_def)

lemma flip_x_dot_arr:
  "dot_arr exact_numerics identity3 flip_x =
     [0, 0, 1, 1, 0, 0, 0, 0]"
  by (simp add: dot_arr_def exact_frm_identity exact_frm_flip_x quat_array_def qmul_def qneg_def
      quat_i_def quat_j_def quat_k_def dot_def)

lemma flip_x_max_dot:
  "max_dot exact_numerics identity3 flip_x = 1"
  by (simp add: max_dot_def max_idx_def flip_x_dot_arr)

theorem bislerp_short_circuit_witness:
  "1 - 1 / 10 ^ 12 < max_dot exact_numerics identity3 flip_x \<and>
   bislerp exact_numerics (Some (Finite identity3)) (Some (Finite flip_x)) (1 / 2) =
     Inr (Some (Finite flip_x)) \<and>
   1 - 1 / 10 ^ 12 < qnorm (from_rotation_matrix exact_numerics identity3) \<and>
   bislerp exact_numerics (Some (Finite identity3)) (Some (Finite identity3)) (1 / 2) =
     Inr (Some (Finite identity3))"
proof -
  have m: "1 - 1 / 10 ^ 12 < max_dot exact_numerics identity3 flip_x"
    by (simp add: flip_x_max_dot)
  have n: "1 - 1 / 10 ^ 12 < qnorm (from_rotation_matrix exact_numerics identity3)"
    by (simp add: exact_frm_identity qnorm_def)
  note inst = bislerp_short_circuit
    [where L = exact_numerics and Qa = identity3 and Qb = "flip_x"
       and Q = identity3 and t = "1 / 2"]
  from inst m have "bislerp exact_numerics (Some (Finite identity3))
      (Some (Finite flip_x)) (1 / 2) =
     Inr (Some (Finite flip_x))"
    by blast
  moreover from inst n have "bislerp exact_numerics (Some (Finite identity3))
      (Some (Finite identity3)) (1 / 2) =
      Inr (Some (Finite identity3))"
    by blast
  ultimately show ?thesis
    using m n by blast
qed

subsection \<open>The frame of axis\<close>

lemma normalize_Finite:
  assumes "normalize a = Finite b"
  shows "vnorm a \<noteq> 0 \<and> b = smul (1 / vnorm a) a"
  using assms by (cases a) (auto simp: normalize_def split: if_splits)

lemma axis_parts:
  assumes "axis L u v = Inr (c0, c1, c2)"
  shows "c1 = normalize u \<and> c2 = nn_bind c0 (\<lambda>c. normalize (vsub v (smul (vdot c v) c)))"
  using assms by (auto simp: axis_def Let_def and_then_Inr)

lemma axis_second_column:
  assumes "axis L u v = Inr (finite_frame Q)"
  shows "normalize u = Finite (col1 Q)"
  using axis_parts [of L u v "Finite (col0 Q)" "Finite (col1 Q)" "Finite (col2 Q)"] assms
  by (simp add: finite_frame_def)

lemma transpose3_columns: "transpose3 (col0 Q, col1 Q, col2 Q) = Q"
  by (cases Q rule: transpose3.cases) (simp add: col0_def col1_def col2_def)

lemma orthonormal_columns:
  assumes "orthonormal (transpose3 (e0, e1, e2))"
  shows "vdot e0 e1 = 0 \<and> vdot e1 e2 = 0"
  using assms
  by (cases e0; cases e1; cases e2) (simp add: orthonormal_def mat_mul_def identity3_def)

lemma vdot_smul_right: "vdot a (smul c b) = c * vdot a b"
  by (cases a; cases b) (simp add: algebra_simps)

lemma vdot_vsub_right: "vdot a (vsub b c) = vdot a b - vdot a c"
  by (cases a; cases b; cases c) (simp add: algebra_simps)

lemma vdot_smul_left: "vdot (smul c a) b = c * vdot a b"
  by (cases a; cases b) (simp add: algebra_simps)

lemma vdot_commute: "vdot a b = vdot b a"
  by (cases a; cases b) (simp add: algebra_simps)

lemma axis_orthonormal_perpendicular:
  assumes "axis L u v = Inr (finite_frame Q)" and "orthonormal Q"
  shows "vdot u v = 0"
proof -
  define e0 where "e0 = col0 Q"
  define e1 where "e1 = col1 Q"
  define e2 where "e2 = col2 Q"
  from assms(1) have parts: "Finite e1 = normalize u"
    "Finite e2 = nn_bind (Finite e0) (\<lambda>c. normalize (vsub v (smul (vdot c v) c)))"
    using axis_parts [of L u v "Finite e0" "Finite e1" "Finite e2"]
    by (simp_all add: finite_frame_def e0_def e1_def e2_def)
  define w where "w = vsub v (smul (vdot e0 v) e0)"
  from parts(1) have u: "vnorm u \<noteq> 0" "e1 = smul (1 / vnorm u) u"
    using normalize_Finite [of u e1] by simp_all
  from parts(2) have w: "vnorm w \<noteq> 0" "e2 = smul (1 / vnorm w) w"
    using normalize_Finite [of w e2] by (simp_all add: nn_bind_def w_def)
  have "orthonormal (transpose3 (e0, e1, e2))"
    using assms(2) by (simp add: e0_def e1_def e2_def transpose3_columns)
  then have orth: "vdot e0 e1 = 0" "vdot e1 e2 = 0"
    using orthonormal_columns by blast+
  from orth(2) w have "vdot e1 w = 0"
    by (simp add: vdot_smul_right)
  then have "vdot e1 v = 0"
    using orth(1) by (simp add: w_def vdot_vsub_right vdot_smul_right vdot_commute [of e1 e0])
  then show ?thesis
    using u by (simp add: vdot_smul_left)
qed

lemma bad_normalize:
  "normalize (1, 0, 0) = Finite (1, 0, 0)"
  "normalize (3, 4, 0) = Finite (3 / 5, 4 / 5, 0)"
  "normalize (0, 4 / 5, 0) = Finite (0, 1, 0)"
  "normalize (0, 0, 1) = Finite (0, 0, 1)"
proof -
  have a: "sqrt 25 = 5" by (rule sqrt_square) simp_all
  have b: "sqrt (16 / 25) = 4 / 5" by (rule sqrt_square) simp_all
  show "normalize (1, 0, 0) = Finite (1, 0, 0)" "normalize (0, 0, 1) = Finite (0, 0, 1)"
    by (simp_all add: normalize_def vnorm_def)
  show "normalize (3, 4, 0) = Finite (3 / 5, 4 / 5, 0)"
    by (simp add: normalize_def vnorm_def a)
  have "vnorm (0, 4 / 5, 0) = 4 / 5"
    using b by (simp add: vnorm_def)
  then show "normalize (0, 4 / 5, 0) = Finite (0, 1, 0)"
    by (simp add: normalize_def)
qed

text \<open>
  C5. For non-zero, non-parallel u and v the matrix of \<open>axis(u, v)\<close> is claimed to be
  orthonormal, with second column \<open>normalize(u)\<close>. The second column is that
  (\<open>axis_second_column\<close>), but the third column is v with only its component along the
  first column removed, so the matrix can be orthonormal only when u and v are
  perpendicular, whatever the root finder returns (\<open>axis_orthonormal_perpendicular\<close>).
  For u = (1, 0, 0) and v = (3, 4, 0) the point (0, 0, 4/5) is a root of the residual,
  and the matrix built from it has a first column of length 4/5 and second and third
  columns with inner product 3/5.
\<close>

theorem axis_not_orthonormal:
  "axis_f (1, 0, 0) (3, 4, 0) (0, 0, 4 / 5) = Finite (0, 0, 0) \<and>
   axis (numerics_with_root (0, 0, 4 / 5)) (1, 0, 0) (3, 4, 0) =
     Inr (finite_frame ((0, 1, 3 / 5), (0, 0, 4 / 5), (4 / 5, 0, 0))) \<and>
   mat_mul (transpose3 ((0, 1, 3 / 5), (0, 0, 4 / 5), (4 / 5, 0, 0)))
     ((0, 1, 3 / 5), (0, 0, 4 / 5), (4 / 5, 0, 0)) =
     ((16 / 25, 0, 0), (0, 1, 3 / 5), (0, 3 / 5, 1)) \<and>
   \<not> orthonormal ((0, 1, 3 / 5), (0, 0, 4 / 5), (4 / 5, 0, 0))"
proof (intro conjI)
  show "axis_f (1, 0, 0) (3, 4, 0) (0, 0, 4 / 5) = Finite (0, 0, 0)"
    by (simp add: axis_f_def nn_bind_def bad_normalize)
  show "axis (numerics_with_root (0, 0, 4 / 5)) (1, 0, 0) (3, 4, 0) =
     Inr (finite_frame ((0, 1, 3 / 5), (0, 0, 4 / 5), (4 / 5, 0, 0)))"
    by (simp add: axis_def and_then_def nn_bind_def bad_normalize numerics_with_root_def
        exact_numerics_def Let_def finite_frame_def col0_def col1_def col2_def)
  show m: "mat_mul (transpose3 ((0, 1, 3 / 5), (0, 0, 4 / 5), (4 / 5, 0, 0)))
     ((0, 1, 3 / 5), (0, 0, 4 / 5), (4 / 5, 0, 0)) =
     ((16 / 25, 0, 0), (0, 1, 3 / 5), (0, 3 / 5, 1))"
    by (simp add: mat_mul_def)
  show "\<not> orthonormal ((0, 1, 3 / 5), (0, 0, 4 / 5), (4 / 5, 0, 0))"
    unfolding orthonormal_def m by (simp add: identity3_def)
qed

subsection \<open>The endpoints of bislerp\<close>

lemma normalized_unit: "qnorm q = 1 \<Longrightarrow> normalized q = Finite q"
  by (simp add: normalized_def)

lemma qnorm_qneg: "qnorm (qneg q) = qnorm q"
  by (simp add: qnorm_def qneg_def)

lemma qnorm_units:
  "qnorm (qmul q quat_i) = qnorm q"
  "qnorm (qmul q quat_j) = qnorm q"
  "qnorm (qmul q quat_k) = qnorm q"
  by (simp_all add: qnorm_def qmul_def quat_i_def quat_j_def quat_k_def algebra_simps)

lemma as_rotation_matrix_qneg: "as_rotation_matrix (qneg q) = as_rotation_matrix q"
  by (simp add: as_rotation_matrix_def Let_def qnorm_qneg) (simp add: qneg_def)

lemma mat_mul_identity: "mat_mul Q identity3 = Q"
  by (cases Q rule: transpose3.cases) (simp add: mat_mul_def identity3_def)

lemma as_rotation_matrix_unit:
  assumes "qnorm q = 1"
  shows "as_rotation_matrix q = Inr
        ((1 - 2 * (qy q * qy q + qz q * qz q), 2 * (qx q * qy q - qz q * qw q), 2 * (qx q * qz q + qy q * qw q)),
         (2 * (qx q * qy q + qz q * qw q), 1 - 2 * (qx q * qx q + qz q * qz q), 2 * (qy q * qz q - qx q * qw q)),
         (2 * (qx q * qz q - qy q * qw q), 2 * (qy q * qz q + qx q * qw q), 1 - 2 * (qx q * qx q + qy q * qy q)))"
  using assms by (simp add: as_rotation_matrix_def Let_def)

lemma as_rotation_matrix_i:
  assumes "qnorm q = 1" and "as_rotation_matrix q = Inr Q"
  shows "as_rotation_matrix (qmul q quat_i) = Inr (mat_mul Q flip_x)"
proof -
  obtain w x y z where q: "q = Quat w x y z" by (cases q)
  from assms(1) have n: "w * w + x * x + y * y + z * z = 1"
    by (simp add: q qnorm_def)
  have n': "qnorm (qmul q quat_i) = 1"
    using assms(1) by (simp add: qnorm_units)
  from assms have Q: "Q = ((1 - 2 * (y * y + z * z), 2 * (x * y - z * w), 2 * (x * z + y * w)),
         (2 * (x * y + z * w), 1 - 2 * (x * x + z * z), 2 * (y * z - x * w)),
         (2 * (x * z - y * w), 2 * (y * z + x * w), 1 - 2 * (x * x + y * y)))"
    by (simp add: as_rotation_matrix_unit q)
  show ?thesis
    unfolding as_rotation_matrix_unit [OF n'] Q
    using n by (simp add: q qmul_def quat_i_def mat_mul_def flip_x_def; algebra)
qed

lemma as_rotation_matrix_j:
  assumes "qnorm q = 1" and "as_rotation_matrix q = Inr Q"
  shows "as_rotation_matrix (qmul q quat_j) = Inr (mat_mul Q flip_y)"
proof -
  obtain w x y z where q: "q = Quat w x y z" by (cases q)
  from assms(1) have n: "w * w + x * x + y * y + z * z = 1"
    by (simp add: q qnorm_def)
  have n': "qnorm (qmul q quat_j) = 1"
    using assms(1) by (simp add: qnorm_units)
  from assms have Q: "Q = ((1 - 2 * (y * y + z * z), 2 * (x * y - z * w), 2 * (x * z + y * w)),
         (2 * (x * y + z * w), 1 - 2 * (x * x + z * z), 2 * (y * z - x * w)),
         (2 * (x * z - y * w), 2 * (y * z + x * w), 1 - 2 * (x * x + y * y)))"
    by (simp add: as_rotation_matrix_unit q)
  show ?thesis
    unfolding as_rotation_matrix_unit [OF n'] Q
    using n by (simp add: q qmul_def quat_j_def mat_mul_def flip_y_def; algebra)
qed

lemma as_rotation_matrix_k:
  assumes "qnorm q = 1" and "as_rotation_matrix q = Inr Q"
  shows "as_rotation_matrix (qmul q quat_k) = Inr (mat_mul Q flip_z)"
proof -
  obtain w x y z where q: "q = Quat w x y z" by (cases q)
  from assms(1) have n: "w * w + x * x + y * y + z * z = 1"
    by (simp add: q qnorm_def)
  have n': "qnorm (qmul q quat_k) = 1"
    using assms(1) by (simp add: qnorm_units)
  from assms have Q: "Q = ((1 - 2 * (y * y + z * z), 2 * (x * y - z * w), 2 * (x * z + y * w)),
         (2 * (x * y + z * w), 1 - 2 * (x * x + z * z), 2 * (y * z - x * w)),
         (2 * (x * z - y * w), 2 * (y * z + x * w), 1 - 2 * (x * x + y * y)))"
    by (simp add: as_rotation_matrix_unit q)
  show ?thesis
    unfolding as_rotation_matrix_unit [OF n'] Q
    using n by (simp add: q qmul_def quat_k_def mat_mul_def flip_z_def; algebra)
qed


lemma below_eight:
  assumes "i < (8::nat)"
  shows "i = 0 \<or> i = 1 \<or> i = 2 \<or> i = 3 \<or> i = 4 \<or> i = 5 \<or> i = 6 \<or> i = 7"
  using assms by arith

lemma representative_rotation:
  assumes n: "qnorm qa = 1" and r: "as_rotation_matrix qa = Inr Qa" and i: "i < 8"
  shows "qnorm (quat_array qa ! i) = 1 \<and>
         as_rotation_matrix (quat_array qa ! i) = Inr (mat_mul Qa (representative_flip i))"
proof -
  have n': "qnorm (qneg qa) = 1" and r': "as_rotation_matrix (qneg qa) = Inr Qa"
    using n r by (simp_all add: qnorm_qneg as_rotation_matrix_qneg)
  note facts = n r n' r' qnorm_units mat_mul_identity
    as_rotation_matrix_i [OF n r] as_rotation_matrix_j [OF n r] as_rotation_matrix_k [OF n r]
    as_rotation_matrix_i [OF n' r'] as_rotation_matrix_j [OF n' r'] as_rotation_matrix_k [OF n' r']
  from below_eight [OF i] show ?thesis
    by (elim disjE) (simp_all add: quat_array_def representative_flip_def facts)
qed

lemma max_idx_less: "max_idx L Qa Qb < 8"
proof -
  have "dot_arr L Qa Qb \<noteq> []"
    using dot_arr_length [of L Qa Qb] by auto
  then have "argmax (dot_arr L Qa Qb) < length (dot_arr L Qa Qb)"
    by (rule argmax_less)
  then show ?thesis
    by (simp add: max_idx_def dot_arr_length)
qed

text \<open>
  C4 (as amended). Let the conversions be exact on Qa and Qb (unit quaternions whose
  rotation matrices are Qa and Qb), let the interpolation start at its first argument and
  end at its second one or the negative of it, and let the short circuit not be taken
  (maximal absolute dot product at most 1 - 1e-12). Then \<open>bislerp(Qa, Qb, 1)\<close> is Qb,
  and \<open>bislerp(Qa, Qb, 0)\<close> is the rotation of the selected representative: Qa followed
  by the half turn of that representative, which is Qa itself only for the first two
  entries of \<open>quat_array\<close>.
\<close>

theorem bislerp_endpoints:
  assumes "as_rotation_matrix (from_rotation_matrix L Qa) = Inr Qa"
    and "as_rotation_matrix (from_rotation_matrix L Qb) = Inr Qb"
    and "qnorm (from_rotation_matrix L Qa) = 1"
    and "qnorm (from_rotation_matrix L Qb) = 1"
    and "slerp L (qm L Qa Qb) (from_rotation_matrix L Qb) 0 1 0 = qm L Qa Qb"
    and "slerp L (qm L Qa Qb) (from_rotation_matrix L Qb) 0 1 1 = from_rotation_matrix L Qb \<or>
         slerp L (qm L Qa Qb) (from_rotation_matrix L Qb) 0 1 1 = qneg (from_rotation_matrix L Qb)"
    and "max_dot L Qa Qb \<le> 1 - 1 / 10 ^ 12"
  shows "bislerp L (Some (Finite Qa)) (Some (Finite Qb)) 1 = Inr (Some (Finite Qb)) \<and>
         bislerp L (Some (Finite Qa)) (Some (Finite Qb)) 0 =
           Inr (Some (Finite (mat_mul Qa (representative_flip (max_idx L Qa Qb)))))"
proof
  have long: "\<not> 1 - bislerp_tol < max_dot L Qa Qb"
    using assms(7) by (simp add: bislerp_tol_def)
  define q1 where "q1 = slerp L (qm L Qa Qb) (from_rotation_matrix L Qb) 0 1 1"
  have "qnorm q1 = 1 \<and> as_rotation_matrix q1 = Inr Qb"
    using assms(2,4,6) unfolding q1_def
    by (auto simp: qnorm_qneg as_rotation_matrix_qneg)
  then show "bislerp L (Some (Finite Qa)) (Some (Finite Qb)) 1 = Inr (Some (Finite Qb))"
    using long by (simp add: q1_def [symmetric] normalized_unit and_then_def)
  have "qnorm (qm L Qa Qb) = 1 \<and>
        as_rotation_matrix (qm L Qa Qb) =
          Inr (mat_mul Qa (representative_flip (max_idx L Qa Qb)))"
    unfolding qm_def using assms(3) assms(1) max_idx_less by (rule representative_rotation)
  then show "bislerp L (Some (Finite Qa)) (Some (Finite Qb)) 0 =
           Inr (Some (Finite (mat_mul Qa (representative_flip (max_idx L Qa Qb)))))"
    using long assms(5) by (simp add: normalized_unit and_then_def)
qed

lemma slerp_exact [simp]: "slerp exact_numerics = exact_slerp"
  by (simp add: exact_numerics_def)

lemma rot_x_106_quat:
  "from_rotation_matrix exact_numerics rot_x_106 = Quat (3 / 5) (4 / 5) 0 0"
  by (simp add: exact_frm_rot_x)

lemma identity_quat: "from_rotation_matrix exact_numerics identity3 = Quat 1 0 0 0"
  by (simp add: exact_frm_identity)

lemma rot_x_106_dot_arr:
  "dot_arr exact_numerics identity3 rot_x_106 = [3 / 5, 3 / 5, 4 / 5, 4 / 5, 0, 0, 0, 0]"
  by (simp add: dot_arr_def identity_quat rot_x_106_quat quat_array_def qmul_def qneg_def
      quat_i_def quat_j_def quat_k_def dot_def del: from_rotation_matrix_exact)

lemma rot_x_106_max_idx: "max_idx exact_numerics identity3 rot_x_106 = 2"
  by (simp add: max_idx_def rot_x_106_dot_arr)

lemma rot_x_106_max_dot: "max_dot exact_numerics identity3 rot_x_106 = 4 / 5"
  by (simp add: max_dot_def rot_x_106_max_idx rot_x_106_dot_arr)

lemma rot_x_106_qm: "qm exact_numerics identity3 rot_x_106 = Quat 0 1 0 0"
  by (simp add: qm_def rot_x_106_max_idx identity_quat quat_array_def qmul_def quat_i_def
      del: from_rotation_matrix_exact)

lemma sin_arccos_four_fifths: "sin (arccos (4 / 5)) = 3 / 5"
proof -
  have "sin (arccos (4 / 5)) = sqrt (1 - (4 / 5)\<^sup>2)"
    by (rule sin_arccos) simp_all
  also have "1 - (4 / 5 :: real)\<^sup>2 = 9 / 25"
    by (simp add: power2_eq_square)
  also have "sqrt (9 / 25) = 3 / 5"
    by (rule sqrt_square) simp_all
  finally show ?thesis .
qed

lemma rot_x_106_slerp:
  "exact_slerp (Quat 0 1 0 0) (Quat (3 / 5) (4 / 5) 0 0) 0 1 0 = Quat 0 1 0 0"
  "exact_slerp (Quat 0 1 0 0) (Quat (3 / 5) (4 / 5) 0 0) 0 1 1 = Quat (3 / 5) (4 / 5) 0 0"
  by (simp_all add: exact_slerp_def dot_def Let_def sin_arccos_four_fifths)

lemma quat_matrices:
  "as_rotation_matrix (Quat 1 0 0 0) = Inr identity3"
  "as_rotation_matrix (Quat (3 / 5) (4 / 5) 0 0) = Inr rot_x_106"
  "as_rotation_matrix (Quat 0 1 0 0) = Inr flip_x"
  by (simp_all add: as_rotation_matrix_def qnorm_def Let_def identity3_def rot_x_106_def flip_x_def)

lemma rot_x_106_start:
  "bislerp exact_numerics (Some (Finite identity3)) (Some (Finite rot_x_106)) 0 =
     Inr (Some (Finite flip_x))"
  by (simp add: rot_x_106_max_dot bislerp_tol_def rot_x_106_qm rot_x_106_quat rot_x_106_slerp
      normalized_def qnorm_def quat_matrices and_then_def del: from_rotation_matrix_exact)

lemma flip_x_start:
  "bislerp exact_numerics (Some (Finite identity3)) (Some (Finite flip_x)) 0 =
     Inr (Some (Finite flip_x))"
  by (simp add: flip_x_max_dot bislerp_tol_def)

lemma rotation_facts:
  "rotation_matrix identity3" "rotation_matrix rot_x_106" "rotation_matrix flip_x"
  "rotation_cos identity3 rot_x_106 = - 7 / 25" "rotation_cos identity3 flip_x = - 1"
  by (simp_all add: rotation_matrix_def orthonormal_def mat_mul_def identity3_def rot_x_106_def
      flip_x_def rotation_cos_def)

theorem bislerp_endpoints_witness:
  "as_rotation_matrix (from_rotation_matrix exact_numerics identity3) = Inr identity3 \<and>
   as_rotation_matrix (from_rotation_matrix exact_numerics rot_x_106) = Inr rot_x_106 \<and>
   qnorm (from_rotation_matrix exact_numerics identity3) = 1 \<and>
   qnorm (from_rotation_matrix exact_numerics rot_x_106) = 1 \<and>
   slerp exact_numerics (qm exact_numerics identity3 rot_x_106)
     (from_rotation_matrix exact_numerics rot_x_106) 0 1 0 = qm exact_numerics identity3 rot_x_106 \<and>
   slerp exact_numerics (qm exact_numerics identity3 rot_x_106)
     (from_rotation_matrix exact_numerics rot_x_106) 0 1 1 =
     from_rotation_matrix exact_numerics rot_x_106 \<and>
   max_dot exact_numerics identity3 rot_x_106 \<le> 1 - 1 / 10 ^ 12 \<and>
   max_idx exact_numerics identity3 rot_x_106 = 2 \<and>
   bislerp exact_numerics (Some (Finite identity3)) (Some (Finite rot_x_106)) 1 =
     Inr (Some (Finite rot_x_106)) \<and>
   bislerp exact_numerics (Some (Finite identity3)) (Some (Finite rot_x_106)) 0 =
     Inr (Some (Finite (mat_mul identity3 (representative_flip 2))))"
proof -
  have h1: "as_rotation_matrix (from_rotation_matrix exact_numerics identity3) = Inr identity3"
    and h2: "as_rotation_matrix (from_rotation_matrix exact_numerics rot_x_106) = Inr rot_x_106"
    and h3: "qnorm (from_rotation_matrix exact_numerics identity3) = 1"
    and h4: "qnorm (from_rotation_matrix exact_numerics rot_x_106) = 1"
    by (simp_all add: identity_quat rot_x_106_quat quat_matrices qnorm_def
        del: from_rotation_matrix_exact)
  have h5: "slerp exact_numerics (qm exact_numerics identity3 rot_x_106)
     (from_rotation_matrix exact_numerics rot_x_106) 0 1 0 = qm exact_numerics identity3 rot_x_106"
    and h6: "slerp exact_numerics (qm exact_numerics identity3 rot_x_106)
     (from_rotation_matrix exact_numerics rot_x_106) 0 1 1 =
     from_rotation_matrix exact_numerics rot_x_106"
    by (simp_all add: rot_x_106_qm rot_x_106_quat rot_x_106_slerp del: from_rotation_matrix_exact)
  have h7: "max_dot exact_numerics identity3 rot_x_106 \<le> 1 - 1 / 10 ^ 12"
    by (simp add: rot_x_106_max_dot)
  from h6 have h6': "slerp exact_numerics (qm exact_numerics identity3 rot_x_106)
     (from_rotation_matrix exact_numerics rot_x_106) 0 1 1 =
     from_rotation_matrix exact_numerics rot_x_106 \<or>
     slerp exact_numerics (qm exact_numerics identity3 rot_x_106)
     (from_rotation_matrix exact_numerics rot_x_106) 0 1 1 =
     qneg (from_rotation_matrix exact_numerics rot_x_106)"
    by (rule disjI1)
  from bislerp_endpoints [OF h1 h2 h3 h4 h5 h6' h7]
  have "bislerp exact_numerics (Some (Finite identity3)) (Some (Finite rot_x_106)) 1 =
       Inr (Some (Finite rot_x_106)) \<and>
     bislerp exact_numerics (Some (Finite identity3)) (Some (Finite rot_x_106)) 0 =
       Inr (Some (Finite (mat_mul identity3 (representative_flip 2))))"
    by (simp only: rot_x_106_max_idx)
  with h1 h2 h3 h4 h5 h6 h7 rot_x_106_max_idx show ?thesis
    by blast
qed

text \<open>
  The claim as stated fails. The identity and the rotation by about 106 degrees about the
  first axis are more than 90 degrees apart and the short circuit is not taken, yet the
  interpolation starts at the half turn \<open>flip_x\<close> and not at the identity. The identity
  and \<open>flip_x\<close> are 180 degrees apart, and there the short circuit is taken.
\<close>

theorem bislerp_start_counterexample:
  "rotation_matrix identity3 \<and> rotation_matrix rot_x_106 \<and>
   rotation_cos identity3 rot_x_106 \<le> 0 \<and>
   max_dot exact_numerics identity3 rot_x_106 \<le> 1 - 1 / 10 ^ 12 \<and>
   bislerp exact_numerics (Some (Finite identity3)) (Some (Finite rot_x_106)) 0 =
     Inr (Some (Finite flip_x)) \<and>
   flip_x \<noteq> identity3 \<and>
   rotation_matrix flip_x \<and> rotation_cos identity3 flip_x \<le> 0 \<and>
   1 - 1 / 10 ^ 12 < max_dot exact_numerics identity3 flip_x \<and>
   bislerp exact_numerics (Some (Finite identity3)) (Some (Finite flip_x)) 0 =
     Inr (Some (Finite flip_x))"
  using rot_x_106_start flip_x_start flip_x_max_dot
  by (simp add: rotation_facts rot_x_106_max_dot) (simp add: flip_x_def identity3_def)

end
